theory Spec2Isabelle
  imports Complex_Main "HOL-Library.Word" "HOL-Library.AList" "HOL-Library.Sublist"
begin

unbundle bit_operations_syntax

section \<open>Python values and string operations used by reset\_mashine\_id.py\<close>

text \<open>
  The values that \<^verbatim>\<open>json.load\<close> and \<^verbatim>\<open>sqlite3\<close> hand to the script. A Python
  \<^verbatim>\<open>dict\<close> is an association list: \<^verbatim>\<open>d[k] = v\<close> keeps the position of an existing key
  and appends a new one, which is what \<^const>\<open>AList.update\<close> does. \<^verbatim>\<open>bytes\<close> (a BLOB read
  from SQLite) is the one value here that \<^verbatim>\<open>json.dump\<close> refuses.
\<close>

datatype pyfloat = Finite rat | PosInf | NegInf | NaN

datatype pyval =
    PNone
  | PBool bool
  | PInt int
  | PFloat pyfloat
  | PStr string
  | PBytes string
  | PList "pyval list"
  | PDict "(string \<times> pyval) list"

text \<open>Python truth value testing, as used by \<^verbatim>\<open>not current_ids.get(key)\<close>.\<close>

fun truthy :: "pyval \<Rightarrow> bool" where
  "truthy PNone = False"
| "truthy (PBool b) = b"
| "truthy (PInt i) = (i \<noteq> 0)"
| "truthy (PFloat f) = (f \<noteq> Finite 0)"
| "truthy (PStr s) = (s \<noteq> [])"
| "truthy (PBytes s) = (s \<noteq> [])"
| "truthy (PList xs) = (xs \<noteq> [])"
| "truthy (PDict kvs) = (kvs \<noteq> [])"

fun json_serializable :: "pyval \<Rightarrow> bool" where
  "json_serializable (PBytes s) = False"
| "json_serializable (PList xs) = list_all json_serializable xs"
| "json_serializable (PDict kvs) = list_all (\<lambda>kv. json_serializable (snd kv)) kvs"
| "json_serializable v = True"

text \<open>\<^verbatim>\<open>d.get(k)\<close> and \<^verbatim>\<open>d.get(k, default)\<close>.\<close>

definition dict_get :: "(string \<times> pyval) list \<Rightarrow> string \<Rightarrow> pyval" where
  "dict_get d k = (case map_of d k of Some v \<Rightarrow> v | None \<Rightarrow> PNone)"

definition dict_get_default :: "(string \<times> pyval) list \<Rightarrow> string \<Rightarrow> pyval \<Rightarrow> pyval" where
  "dict_get_default d k dflt = (case map_of d k of Some v \<Rightarrow> v | None \<Rightarrow> dflt)"

text \<open>The identifier set is a \<^verbatim>\<open>dict\<close> from key to token string.\<close>

type_synonym ids = "(string \<times> string) list"

definition ids_get :: "ids \<Rightarrow> string \<Rightarrow> string" where
  "ids_get i k = (case map_of i k of Some v \<Rightarrow> v | None \<Rightarrow> [])"

text \<open>\<^verbatim>\<open>current_data.update(ids)\<close>: every pair of \<open>ids\<close> is stored, in order.\<close>

definition dict_update :: "(string \<times> pyval) list \<Rightarrow> ids \<Rightarrow> (string \<times> pyval) list" where
  "dict_update d i = foldl (\<lambda>acc kv. AList.update (fst kv) (PStr (snd kv)) acc) d i"

definition is_space :: "char \<Rightarrow> bool" where
  "is_space c = (c \<in> set [CHR 0x09, CHR 0x0A, CHR 0x0B, CHR 0x0C, CHR 0x0D,
                            CHR 0x1C, CHR 0x1D, CHR 0x1E, CHR 0x1F, CHR 0x20])"

text \<open>\<^verbatim>\<open>s.strip()\<close> is \<open>strip_chars is_space s\<close>; \<^verbatim>\<open>s.strip('"')\<close> strips that character.\<close>

definition strip_chars :: "(char \<Rightarrow> bool) \<Rightarrow> string \<Rightarrow> string" where
  "strip_chars p s = rev (dropWhile p (rev (dropWhile p s)))"

text \<open>\<^verbatim>\<open>s.split(sep)\<close> for a non-empty separator (the script only splits on constants).\<close>

function split_acc :: "string \<Rightarrow> string \<Rightarrow> string \<Rightarrow> string list" where
  "split_acc sep acc [] = [rev acc]"
| "split_acc sep acc (c # cs) =
     (if sep \<noteq> [] \<and> prefix sep (c # cs)
      then rev acc # split_acc sep [] (drop (length sep) (c # cs))
      else split_acc sep (c # acc) cs)"
  by pat_completeness auto
termination
  by (relation "measure (\<lambda>(sep, acc, s). length s)") (auto simp: neq_Nil_conv)

definition split_str :: "string \<Rightarrow> string \<Rightarrow> string list" where
  "split_str sep s = split_acc sep [] s"

text \<open>\<^verbatim>\<open>sub in s\<close>.\<close>

fun contains_str :: "string \<Rightarrow> string \<Rightarrow> bool" where
  "contains_str sub [] = (sub = [])"
| "contains_str sub (c # cs) = (prefix sub (c # cs) \<or> contains_str sub cs)"

text \<open>\<^verbatim>\<open>s.lower()\<close> on ASCII letters.\<close>

definition py_lower :: "string \<Rightarrow> string" where
  "py_lower s =
     map (\<lambda>c. case map_of (zip ''ABCDEFGHIJKLMNOPQRSTUVWXYZ'' ''abcdefghijklmnopqrstuvwxyz'') c of
                 Some l \<Rightarrow> l | None \<Rightarrow> c) s"

text \<open>
  \<^verbatim>\<open>int(s)\<close> for ASCII input: surrounding whitespace, an optional sign, decimal digits with
  single underscores between them. \<open>None\<close> is the \<^verbatim>\<open>ValueError\<close>.
\<close>

definition is_digit :: "char \<Rightarrow> bool" where
  "is_digit c = (c \<in> set ''0123456789'')"

definition digit_val :: "char \<Rightarrow> int" where
  "digit_val c = (case map_of (zip ''0123456789'' [0, 1, 2, 3, 4, 5, 6, 7, 8, 9]) c of
                    Some d \<Rightarrow> d | None \<Rightarrow> 0)"

definition py_int :: "string \<Rightarrow> int option" where
  "py_int s =
     (let t = strip_chars is_space s;
          neg = (t \<noteq> [] \<and> hd t = CHR ''-'');
          body = (if t \<noteq> [] \<and> (hd t = CHR ''-'' \<or> hd t = CHR ''+'') then tl t else t);
          groups = split_str ''_'' body
      in if list_all (\<lambda>g. g \<noteq> [] \<and> list_all is_digit g) groups
         then Some ((if neg then - 1 else 1) * foldl (\<lambda>a c. 10 * a + digit_val c) 0 (concat groups))
         else None)"

section \<open>uuid.uuid4 and its string form\<close>

text \<open>
  \<^verbatim>\<open>uuid.uuid4()\<close> takes sixteen bytes of \<^verbatim>\<open>os.urandom\<close> as a 128-bit integer, sets the
  variant bits to \<open>10\<close> and the version nibble to \<open>4\<close>; \<^verbatim>\<open>str\<close> prints the 32 lowercase
  hexadecimal digits in groups of 8-4-4-4-12.
\<close>

definition uuid_version4 :: "128 word \<Rightarrow> 128 word" where
  "uuid_version4 n =
     (((n AND NOT (push_bit 48 0xc000)) OR push_bit 48 0x8000)
        AND NOT (push_bit 64 0xf000)) OR push_bit 76 4"

definition hexdigit :: "nat \<Rightarrow> char" where
  "hexdigit d = ''0123456789abcdef'' ! d"

definition nibble :: "128 word \<Rightarrow> nat \<Rightarrow> nat" where
  "nibble n i = unat (drop_bit (4 * (31 - i)) n AND 0xf)"

definition hex32 :: "128 word \<Rightarrow> string" where
  "hex32 n = map (\<lambda>i. hexdigit (nibble n i)) [0..<32]"

definition uuid_str :: "128 word \<Rightarrow> string" where
  "uuid_str n =
     (let x = hex32 n
      in take 8 x @ ''-'' @ take 4 (drop 8 x) @ ''-'' @ take 4 (drop 12 x) @ ''-''
         @ take 4 (drop 16 x) @ ''-'' @ drop 20 x)"

definition is_hex_lower :: "char \<Rightarrow> bool" where
  "is_hex_lower c = (c \<in> set ''0123456789abcdef'')"

text \<open>The 36-character token format: 8-4-4-4-12 lowercase hexadecimal digits.\<close>

definition is_uuid_format :: "string \<Rightarrow> bool" where
  "is_uuid_format s =
     (length s = 36
      \<and> list_all is_hex_lower (take 8 s) \<and> s ! 8 = CHR ''-''
      \<and> list_all is_hex_lower (take 4 (drop 9 s)) \<and> s ! 13 = CHR ''-''
      \<and> list_all is_hex_lower (take 4 (drop 14 s)) \<and> s ! 18 = CHR ''-''
      \<and> list_all is_hex_lower (take 4 (drop 19 s)) \<and> s ! 23 = CHR ''-''
      \<and> list_all is_hex_lower (drop 24 s))"

section \<open>The world the script runs in\<close>

datatype sqlval = SNull | SInt int | SReal pyfloat | SText string | SBadText string | SBlob string

text \<open>
  What \<^verbatim>\<open>sqlite3\<close> returns for a stored value. \<open>SBadText\<close> is a TEXT value whose bytes
  are not valid UTF-8: fetching it raises \<^verbatim>\<open>OperationalError\<close>, which is \<open>None\<close> here.
\<close>

fun sql_to_py :: "sqlval \<Rightarrow> pyval option" where
  "sql_to_py SNull = Some PNone"
| "sql_to_py (SInt i) = Some (PInt i)"
| "sql_to_py (SReal f) = Some (PFloat f)"
| "sql_to_py (SText s) = Some (PStr s)"
| "sql_to_py (SBadText b) = None"
| "sql_to_py (SBlob b) = Some (PBytes b)"

text \<open>
  A file holds a JSON document, plain text, an SQLite database or something that is none
  of these. Of a database only \<^verbatim>\<open>ItemTable\<close> matters: \<open>None\<close> when the table does not
  exist, otherwise its rows from key to value (the table has the columns \<^verbatim>\<open>key\<close> and
  \<^verbatim>\<open>value\<close> with \<^verbatim>\<open>key\<close> unique, as the script's own \<^verbatim>\<open>CREATE TABLE\<close> makes it).
\<close>

datatype content =
    JsonDoc pyval
  | TextFile string
  | SqliteDb "(string \<times> sqlval) list option"
  | Garbage

text \<open>The outcome of one \<^verbatim>\<open>subprocess.run(..., timeout=5)\<close>.\<close>

datatype proc_result = TimeoutExpired | ToolNotFound | ToolError | Completed int string

text \<open>The outcome of \<^verbatim>\<open>winreg.OpenKey(HKEY_LOCAL_MACHINE, key, 0, KEY_WRITE | ...)\<close>.\<close>

datatype open_result = Opened | KeyNotFound | KeyDenied | KeyOtherError

text \<open>Every line the script prints, named after its translator key.\<close>

datatype msg =
    MsgStarting
  | MsgCursorRunning "int option"
  | MsgCloseRecommended
  | PromptContinueAnyway
  | MsgOperationCancelled
  | MsgFilesNotFound
  | MsgExpectedPaths string string string
  | MsgBackingUpCurrent
  | MsgStorageReadWarning
  | MsgSqliteReadWarning
  | MsgBackupSaved string
  | MsgNoCurrentIds
  | MsgBackupError
  | MsgGeneratingNewIds
  | MsgIdsToReset
  | MsgIdPreview string string
  | PromptConfirm
  | MsgCurrentFileNotFound string
  | MsgCurrentBackupCreated string
  | MsgStorageUpdated
  | MsgUpdateFailed
  | MsgSqliteNotFound string
  | MsgUpdatingSqlite
  | MsgUpdatingPair string
  | MsgSqliteUpdated
  | MsgSqliteUpdateFailed
  | MsgMachineIdBackupCreated string
  | MsgBackupCreationFailed
  | MsgMachineIdUpdated
  | MsgMachineIdUpdateFailed
  | MsgUpdatingSystemIds
  | MsgWindowsMachineGuidUpdated
  | MsgPermissionDenied
  | MsgUpdateWindowsMachineGuidFailed
  | MsgWindowsMachineIdUpdated
  | MsgSqmClientKeyNotFound
  | MsgUpdateWindowsMachineIdFailed
  | MsgUpdateWindowsSystemIdsFailed
  | MsgMacosPlatformUuidUpdated
  | MsgFailedToExecutePlutil
  | MsgSuccess
  | MsgRestartCursor
  | MsgProcessError

text \<open>The mutator methods of \<^verbatim>\<open>MachineIDResetter\<close>, with the argument each was called with.\<close>

datatype call =
    CallUpdateCurrentFile ids
  | CallUpdateSqliteDb ids
  | CallUpdateMachineIdFile string
  | CallUpdateSystemIds ids

text \<open>
  The state of a run. \<open>db_path\<close> and \<open>sqlite_path\<close> are the fields the constructor read from
  the configuration. \<open>fs\<close> is the file system; a path in \<open>unreadable\<close> or \<open>unwritable\<close>
  makes opening it in that mode raise. \<open>clock\<close> and \<open>urandom\<close> are the sources of
  \<^verbatim>\<open>datetime.now()\<close> and \<^verbatim>\<open>os.urandom\<close>, read at position \<open>ticks\<close> and \<open>draws\<close>.
  \<open>stdin\<close> holds the operator's answers to \<^verbatim>\<open>input()\<close>, \<open>printed\<close> what the script has
  printed. \<open>calls\<close> records each mutator call on entry; nothing reads it.
\<close>

record world =
  platform :: string
  home :: string
  appdata :: "string option"
  db_path :: string
  sqlite_path :: string
  fs :: "string \<rightharpoonup> content"
  unreadable :: "string \<Rightarrow> bool"
  unwritable :: "string \<Rightarrow> bool"
  makedirs_fails :: bool
  clock :: "nat \<Rightarrow> string"
  ticks :: nat
  urandom :: "nat \<Rightarrow> 128 word"
  draws :: nat
  stdin :: "string list"
  printed :: "msg list"
  calls :: "call list"
  tasklist :: proc_result
  wmic :: proc_result
  pgrep :: proc_result
  winreg_importable :: bool
  reg_open :: "string \<Rightarrow> open_result"
  reg_values :: "(string \<times> string) \<rightharpoonup> string"
  plist_uuid :: "string option"
  plutil_status :: int

definition say :: "msg \<Rightarrow> world \<Rightarrow> world" where
  "say m w = w\<lparr>printed := printed w @ [m]\<rparr>"

definition record_call :: "call \<Rightarrow> world \<Rightarrow> world" where
  "record_call c w = w\<lparr>calls := calls w @ [c]\<rparr>"

text \<open>\<^verbatim>\<open>datetime.now().strftime("%Y%m%d_%H%M%S")\<close>.\<close>

definition now_timestamp :: "world \<Rightarrow> string \<times> world" where
  "now_timestamp w = (clock w (ticks w), w\<lparr>ticks := Suc (ticks w)\<rparr>)"

text \<open>\<^verbatim>\<open>input(prompt)\<close>: the prompt is printed, \<open>None\<close> is \<^verbatim>\<open>EOFError\<close>.\<close>

definition input_line :: "msg \<Rightarrow> world \<Rightarrow> string option \<times> world" where
  "input_line prompt w =
     (case stdin (say prompt w) of
        [] \<Rightarrow> (None, say prompt w)
      | a # rest \<Rightarrow> (Some a, (say prompt w)\<lparr>stdin := rest\<rparr>))"

definition path_exists :: "world \<Rightarrow> string \<Rightarrow> bool" where
  "path_exists w p = (fs w p \<noteq> None)"

text \<open>
  \<^verbatim>\<open>os.path.join\<close> with a relative second part and \<^verbatim>\<open>os.path.dirname\<close>; on
  \<^verbatim>\<open>win32\<close> both slashes separate and the backslash joins (drive letters are not treated).
\<close>

definition path_seps :: "world \<Rightarrow> string" where
  "path_seps w = (if platform w = ''win32'' then [CHR 0x5C, CHR ''/''] else ''/'')"

definition path_join :: "world \<Rightarrow> string \<Rightarrow> string \<Rightarrow> string" where
  "path_join w a b =
     (if a \<noteq> [] \<and> last a \<notin> set (path_seps w) then a @ [hd (path_seps w)] @ b else a @ b)"

definition path_dirname :: "world \<Rightarrow> string \<Rightarrow> string" where
  "path_dirname w p =
     (let is_sep = (\<lambda>c. c \<in> set (path_seps w));
          head = rev (dropWhile (\<lambda>c. \<not> is_sep c) (rev p))
      in if head \<noteq> [] \<and> \<not> list_all is_sep head
         then rev (dropWhile is_sep (rev head)) else head)"

definition get_cursor_machine_id_path :: "world \<Rightarrow> string" where
  "get_cursor_machine_id_path w =
     (if platform w = ''win32'' then
        (case appdata w of
           Some a \<Rightarrow>
             if a \<noteq> [] then foldl (path_join w) a [''Cursor'', ''User'', ''machineId'']
             else foldl (path_join w) (home w)
                    [''AppData'', ''Roaming'', ''Cursor'', ''User'', ''machineId'']
         | None \<Rightarrow> foldl (path_join w) (home w)
                    [''AppData'', ''Roaming'', ''Cursor'', ''User'', ''machineId''])
      else if platform w = ''darwin'' then
        foldl (path_join w) (home w)
          [''Library'', ''Application Support'', ''Cursor'', ''User'', ''machineId'']
      else
        foldl (path_join w) (home w) [''.config'', ''Cursor'', ''User'', ''machineId''])"

text \<open>\<^verbatim>\<open>open(p, "r")\<close> followed by \<^verbatim>\<open>json.load\<close>; \<open>None\<close> when either raises.\<close>

definition read_json :: "world \<Rightarrow> string \<Rightarrow> pyval option" where
  "read_json w p =
     (if unreadable w p then None
      else case fs w p of Some (JsonDoc v) \<Rightarrow> Some v | _ \<Rightarrow> None)"

text \<open>
  \<^verbatim>\<open>open(p, "w")\<close> followed by \<^verbatim>\<open>json.dump(v, f, indent=4)\<close>. The flag is \<open>False\<close> when
  one of them raised; a dump that raises has already truncated the file.
\<close>

definition write_json :: "string \<Rightarrow> pyval \<Rightarrow> world \<Rightarrow> bool \<times> world" where
  "write_json p v w =
     (if unwritable w p then (False, w)
      else if json_serializable v then (True, w\<lparr>fs := (fs w)(p \<mapsto> JsonDoc v)\<rparr>)
      else (False, w\<lparr>fs := (fs w)(p \<mapsto> Garbage)\<rparr>))"

text \<open>\<^verbatim>\<open>shutil.copy2(src, dst)\<close>; \<open>None\<close> when it raises.\<close>

definition copy2 :: "string \<Rightarrow> string \<Rightarrow> world \<Rightarrow> world option" where
  "copy2 src dst w =
     (case fs w src of
        None \<Rightarrow> None
      | Some c \<Rightarrow>
          if unreadable w src \<or> unwritable w dst \<or> src = dst then None
          else Some (w\<lparr>fs := (fs w)(dst \<mapsto> c)\<rparr>))"

text \<open>
  \<^verbatim>\<open>sqlite3.connect(p)\<close> and \<^verbatim>\<open>CREATE TABLE IF NOT EXISTS ItemTable\<close>: \<open>None\<close> when
  one of them raises, otherwise the rows of the table. The statement runs outside a
  transaction, so a table it creates is in the file from then on. An empty file is a
  database without tables.
\<close>

definition open_item_table :: "string \<Rightarrow> world \<Rightarrow> ((string \<times> sqlval) list \<times> world) option" where
  "open_item_table p w =
     (if unreadable w p then None
      else if fs w p = Some (SqliteDb None) \<or> fs w p = Some (TextFile []) then
        (if unwritable w p then None
         else Some ([], w\<lparr>fs := (fs w)(p \<mapsto> SqliteDb (Some []))\<rparr>))
      else case fs w p of
        Some (SqliteDb (Some rows)) \<Rightarrow> Some (rows, w)
      | _ \<Rightarrow> None)"

section \<open>MachineIDResetter\<close>

definition id_keys :: "string list" where
  "id_keys = [''telemetry.devDeviceId'', ''telemetry.macMachineId'', ''telemetry.machineId'',
              ''telemetry.sqmId'', ''storage.serviceMachineId'']"

definition uuid4 :: "world \<Rightarrow> string \<times> world" where
  "uuid4 w = (uuid_str (uuid_version4 (urandom w (draws w))), w\<lparr>draws := Suc (draws w)\<rparr>)"

definition generate_new_ids :: "world \<Rightarrow> ids \<times> world" where
  "generate_new_ids w0 =
     (let w = say MsgGeneratingNewIds w0;
          (a, w) = uuid4 w;
          (b, w) = uuid4 w;
          (c, w) = uuid4 w;
          (d, w) = uuid4 w;
          (e, w) = uuid4 w
      in ([(''telemetry.devDeviceId'', a), (''telemetry.macMachineId'', b),
           (''telemetry.machineId'', c), (''telemetry.sqmId'', d),
           (''storage.serviceMachineId'', e)], w))"

text \<open>The first half of \<^verbatim>\<open>backup_current_ids\<close>: the five keys of storage.json.\<close>

definition backup_read_storage :: "world \<Rightarrow> (string \<times> pyval) list \<times> world" where
  "backup_read_storage w =
     (if path_exists w (db_path w) then
        (case read_json w (db_path w) of
           Some (PDict storage_data) \<Rightarrow>
             (foldl (\<lambda>acc k. AList.update k (dict_get_default storage_data k (PStr [])) acc)
                [] id_keys, w)
         | _ \<Rightarrow> ([], say MsgStorageReadWarning w))
      else ([], w))"

text \<open>
  The loop over \<^verbatim>\<open>keys\<close>, which changes \<^verbatim>\<open>current_ids\<close> in place: the row of the table
  is taken when \<^verbatim>\<open>not current_ids.get(key)\<close> holds. A row that cannot be fetched raises
  out of the loop: the flag is then \<open>False\<close>, the keys merged so far stay and the
  remaining keys are not looked at.
\<close>

fun backup_merge_sqlite ::
  "(string \<times> sqlval) list \<Rightarrow> string list \<Rightarrow> (string \<times> pyval) list
     \<Rightarrow> (string \<times> pyval) list \<times> bool" where
  "backup_merge_sqlite rows [] current_ids = (current_ids, True)"
| "backup_merge_sqlite rows (key # keys) current_ids =
     (case map_of rows key of
        None \<Rightarrow> backup_merge_sqlite rows keys current_ids
      | Some v \<Rightarrow>
          (case sql_to_py v of
             None \<Rightarrow> (current_ids, False)
           | Some result \<Rightarrow>
               backup_merge_sqlite rows keys
                 (if \<not> truthy (dict_get current_ids key)
                  then AList.update key result current_ids else current_ids)))"

text \<open>The second half of \<^verbatim>\<open>backup_current_ids\<close>: the rows of state.vscdb.\<close>

definition backup_read_sqlite ::
  "(string \<times> pyval) list \<Rightarrow> world \<Rightarrow> (string \<times> pyval) list \<times> world" where
  "backup_read_sqlite current_ids w =
     (if path_exists w (sqlite_path w) then
        (case open_item_table (sqlite_path w) w of
           Some (rows, w') \<Rightarrow>
             (case backup_merge_sqlite rows id_keys current_ids of
                (merged, True) \<Rightarrow> (merged, w')
              | (merged, False) \<Rightarrow> (merged, say MsgSqliteReadWarning w'))
         | None \<Rightarrow> (current_ids, say MsgSqliteReadWarning w))
      else (current_ids, w))"

definition backup_current_ids :: "world \<Rightarrow> bool \<times> world" where
  "backup_current_ids w0 =
     (let w = say MsgBackingUpCurrent w0;
          (current_ids, w) = backup_read_storage w;
          (current_ids, w) = backup_read_sqlite current_ids w
      in if current_ids \<noteq> [] then
           (let backup_dir = path_dirname w (db_path w);
                (timestamp, w) = now_timestamp w;
                backup_file = path_join w backup_dir (''storage.json.bak.'' @ timestamp);
                (ok, w) = write_json backup_file (PDict current_ids) w
            in if ok then (True, say (MsgBackupSaved backup_file) w)
               else (False, say MsgBackupError w))
         else (False, say MsgNoCurrentIds w))"

definition update_current_file :: "ids \<Rightarrow> world \<Rightarrow> bool \<times> world" where
  "update_current_file new_ids w0 =
     (let w = record_call (CallUpdateCurrentFile new_ids) w0
      in if \<not> path_exists w (db_path w)
         then (False, say (MsgCurrentFileNotFound (db_path w)) w)
         else
           (case read_json w (db_path w) of
              None \<Rightarrow> (False, say MsgUpdateFailed w)
            | Some current_data \<Rightarrow>
                (let (timestamp, w) = now_timestamp w;
                     backup_path = db_path w @ ''.restore_bak.'' @ timestamp
                 in case copy2 (db_path w) backup_path w of
                      None \<Rightarrow> (False, say MsgUpdateFailed w)
                    | Some w \<Rightarrow>
                        (let w = say (MsgCurrentBackupCreated backup_path) w
                         in case current_data of
                              PDict d \<Rightarrow>
                                (let (ok, w) = write_json (db_path w) (PDict (dict_update d new_ids)) w
                                 in if ok then (True, say MsgStorageUpdated w)
                                    else (False, say MsgUpdateFailed w))
                            | _ \<Rightarrow> (False, say MsgUpdateFailed w)))))"

text \<open>
  The \<^verbatim>\<open>INSERT OR REPLACE\<close> loop and \<^verbatim>\<open>commit\<close>. A database that cannot be written
  raises at the first insert, before anything is printed for a pair.
\<close>

definition update_sqlite_db :: "ids \<Rightarrow> world \<Rightarrow> bool \<times> world" where
  "update_sqlite_db new_ids w0 =
     (let w = record_call (CallUpdateSqliteDb new_ids) w0
      in if \<not> path_exists w (sqlite_path w)
         then (False, say (MsgSqliteNotFound (sqlite_path w)) w)
         else
           (let w = say MsgUpdatingSqlite w
            in case open_item_table (sqlite_path w) w of
                 None \<Rightarrow> (False, say MsgSqliteUpdateFailed w)
               | Some (rows, w) \<Rightarrow>
                   if new_ids \<noteq> [] \<and> unwritable w (sqlite_path w)
                   then (False, say MsgSqliteUpdateFailed w)
                   else
                     (let rows' = foldl (\<lambda>acc kv. AList.update (fst kv) (SText (snd kv)) acc)
                                    rows new_ids;
                          w = foldl (\<lambda>w kv. say (MsgUpdatingPair (fst kv)) w) w new_ids;
                          w = w\<lparr>fs := (fs w)(sqlite_path w \<mapsto> SqliteDb (Some rows'))\<rparr>
                      in (True, say MsgSqliteUpdated w))))"

definition update_machine_id_file :: "string \<Rightarrow> world \<Rightarrow> bool \<times> world" where
  "update_machine_id_file dev_device_id w0 =
     (let w = record_call (CallUpdateMachineIdFile dev_device_id) w0;
          machine_id_path = get_cursor_machine_id_path w
      in if makedirs_fails w then (False, say MsgMachineIdUpdateFailed w)
         else
           (let w = (if path_exists w machine_id_path then
                       (let (timestamp, w) = now_timestamp w;
                            backup_path = machine_id_path @ ''.restore_bak.'' @ timestamp
                        in case copy2 machine_id_path backup_path w of
                             Some w' \<Rightarrow> say (MsgMachineIdBackupCreated backup_path) w'
                           | None \<Rightarrow> say MsgBackupCreationFailed w)
                     else w)
            in if unwritable w machine_id_path
               then (False, say MsgMachineIdUpdateFailed w)
               else (True, say MsgMachineIdUpdated
                             (w\<lparr>fs := (fs w)(machine_id_path \<mapsto> TextFile dev_device_id)\<rparr>))))"

definition cryptography_key :: string where
  "cryptography_key = ''SOFTWARE'' @ [CHR 0x5C] @ ''Microsoft'' @ [CHR 0x5C] @ ''Cryptography''"

definition sqmclient_key :: string where
  "sqmclient_key = ''SOFTWARE'' @ [CHR 0x5C] @ ''Microsoft'' @ [CHR 0x5C] @ ''SQMClient''"

text \<open>The two registry blocks of \<^verbatim>\<open>_update_windows_system_ids\<close>, each in its own \<^verbatim>\<open>try\<close>.\<close>

definition update_machine_guid :: "ids \<Rightarrow> world \<Rightarrow> world" where
  "update_machine_guid new_ids w =
     (let guid = ids_get new_ids ''telemetry.devDeviceId''
      in if guid \<noteq> [] then
           (case reg_open w cryptography_key of
              Opened \<Rightarrow>
                say MsgWindowsMachineGuidUpdated
                  (w\<lparr>reg_values := (reg_values w)((cryptography_key, ''MachineGuid'') \<mapsto> guid)\<rparr>)
            | KeyDenied \<Rightarrow> say MsgPermissionDenied w
            | _ \<Rightarrow> say MsgUpdateWindowsMachineGuidFailed w)
         else w)"

definition update_sqm_machine_id :: "ids \<Rightarrow> world \<Rightarrow> world" where
  "update_sqm_machine_id new_ids w =
     (let sqm_id = ids_get new_ids ''telemetry.sqmId''
      in if sqm_id \<noteq> [] then
           (case reg_open w sqmclient_key of
              Opened \<Rightarrow>
                say MsgWindowsMachineIdUpdated
                  (w\<lparr>reg_values := (reg_values w)((sqmclient_key, ''MachineId'') \<mapsto> sqm_id)\<rparr>)
            | KeyNotFound \<Rightarrow> say MsgSqmClientKeyNotFound w
            | KeyDenied \<Rightarrow> say MsgPermissionDenied w
            | KeyOtherError \<Rightarrow> say MsgUpdateWindowsMachineIdFailed w)
         else w)"

definition update_windows_system_ids :: "ids \<Rightarrow> world \<Rightarrow> world" where
  "update_windows_system_ids new_ids w =
     (if \<not> winreg_importable w then say MsgUpdateWindowsSystemIdsFailed w
      else update_sqm_machine_id new_ids (update_machine_guid new_ids w))"

text \<open>
  \<open>plist_uuid\<close> is the \<^verbatim>\<open>UUID\<close> field of the platform property list, \<open>None\<close> when the
  file does not exist; \<open>plutil_status\<close> is what \<^verbatim>\<open>os.system\<close> returns for the edit.
\<close>

definition update_macos_system_ids :: "ids \<Rightarrow> world \<Rightarrow> world" where
  "update_macos_system_ids new_ids w =
     (if plist_uuid w \<noteq> None then
        (let mac_id = ids_get new_ids ''telemetry.macMachineId''
         in if mac_id \<noteq> [] then
              (if plutil_status w = 0
               then say MsgMacosPlatformUuidUpdated (w\<lparr>plist_uuid := Some mac_id\<rparr>)
               else say MsgFailedToExecutePlutil w)
            else w)
      else w)"

definition update_system_ids :: "ids \<Rightarrow> world \<Rightarrow> bool \<times> world" where
  "update_system_ids new_ids w0 =
     (let w = say MsgUpdatingSystemIds (record_call (CallUpdateSystemIds new_ids) w0)
      in if prefix ''win'' (platform w) then (True, update_windows_system_ids new_ids w)
         else if platform w = ''darwin'' then (True, update_macos_system_ids new_ids w)
         else (True, w))"

text \<open>
  \<^verbatim>\<open>check_cursor_running\<close> returns \<^verbatim>\<open>(True|False|None, pid|None)\<close>. Every
  \<^verbatim>\<open>subprocess.run\<close> stands inside a \<^verbatim>\<open>try\<close> whose handler catches \<^verbatim>\<open>Exception\<close>.
\<close>

definition parse_tasklist :: "string \<Rightarrow> bool option \<times> int option" where
  "parse_tasklist out =
     (let lines = split_str [CHR 0x0A] (strip_chars is_space out)
      in if length lines > 1 then
           (let parts = split_str [CHR 0x22, CHR '','', CHR 0x22] (lines ! 1)
            in if length parts > 1 then
                 (case py_int (strip_chars (\<lambda>c. c = CHR 0x22) (parts ! 1)) of
                    Some pid \<Rightarrow> (Some True, Some pid)
                  | None \<Rightarrow> (Some True, None))
               else (Some True, None))
         else (Some True, None))"

definition check_pgrep :: "world \<Rightarrow> bool option \<times> int option" where
  "check_pgrep w =
     (case pgrep w of
        Completed returncode out \<Rightarrow>
          if returncode = 0 \<and> strip_chars is_space out \<noteq> [] then
            (case split_str [CHR 0x0A] (strip_chars is_space out) of
               [] \<Rightarrow> (Some False, None)
             | p # ps \<Rightarrow>
                 (case py_int p of
                    Some pid \<Rightarrow> (Some True, Some pid)
                  | None \<Rightarrow> (Some True, None)))
          else (Some False, None)
      | _ \<Rightarrow> (Some False, None))"

definition check_cursor_running :: "world \<Rightarrow> bool option \<times> int option" where
  "check_cursor_running w =
     (if platform w = ''win32'' then
        (case tasklist w of
           Completed returncode out \<Rightarrow>
             if contains_str ''Cursor.exe'' out then parse_tasklist out
             else (Some False, None)
         | _ \<Rightarrow>
             (case wmic w of
                Completed returncode out \<Rightarrow>
                  if contains_str ''ProcessId'' out \<and> strip_chars is_space out \<noteq> ''ProcessId''
                  then (Some True, None) else (Some False, None)
              | _ \<Rightarrow> (Some False, None)))
      else if platform w = ''darwin'' then check_pgrep w
      else check_pgrep w)"

text \<open>\<^verbatim>\<open>reset_machine_ids\<close>, from its last step to its first.\<close>

definition reset_apply :: "ids \<Rightarrow> world \<Rightarrow> bool \<times> world" where
  "reset_apply new_ids w0 =
     (let (ok, w) = update_current_file new_ids w0
      in if \<not> ok then (False, w)
         else
           (let (r1, w) = update_sqlite_db new_ids w;
                (r2, w) = update_machine_id_file (ids_get new_ids ''telemetry.devDeviceId'') w;
                (r3, w) = update_system_ids new_ids w
            in (True, say MsgRestartCursor (say MsgSuccess w))))"

definition reset_preview :: "world \<Rightarrow> ids \<times> world" where
  "reset_preview w0 =
     (let (backed_up, w) = backup_current_ids w0;
          (new_ids, w) = generate_new_ids w;
          w = say MsgIdsToReset w;
          w = foldl (\<lambda>w kv. say (MsgIdPreview (fst kv) (snd kv)) w) w new_ids
      in (new_ids, w))"

definition reset_confirm :: "world \<Rightarrow> bool \<times> world" where
  "reset_confirm w0 =
     (let (new_ids, w) = reset_preview w0;
          (confirm, w) = input_line PromptConfirm w
      in case confirm of
           None \<Rightarrow> (False, say MsgProcessError w)
         | Some a \<Rightarrow>
             if py_lower a \<noteq> ''y'' then (False, say MsgOperationCancelled w)
             else reset_apply new_ids w)"

definition reset_files :: "world \<Rightarrow> bool \<times> world" where
  "reset_files w =
     (let machine_id_path = get_cursor_machine_id_path w
      in if \<not> path_exists w (db_path w) \<and> \<not> path_exists w (sqlite_path w)
            \<and> \<not> path_exists w machine_id_path
         then (False, say (MsgExpectedPaths (db_path w) (sqlite_path w) machine_id_path)
                        (say MsgFilesNotFound w))
         else reset_confirm w)"

definition reset_after_check :: "bool option \<times> int option \<Rightarrow> world \<Rightarrow> bool \<times> world" where
  "reset_after_check r w0 =
     (if fst r = Some True then
        (let w = say MsgCloseRecommended (say (MsgCursorRunning (snd r)) w0);
             (continue_anyway, w) = input_line PromptContinueAnyway w
         in case continue_anyway of
              None \<Rightarrow> (False, say MsgProcessError w)
            | Some a \<Rightarrow>
                if py_lower a \<noteq> ''y'' then (False, say MsgOperationCancelled w)
                else reset_files w)
      else reset_files w0)"

definition reset_machine_ids :: "world \<Rightarrow> bool \<times> world" where
  "reset_machine_ids w0 =
     (let w = say MsgStarting w0
      in reset_after_check (check_cursor_running w) w)"

text \<open>
  \<open>frame w w' cs\<close>: from \<open>w\<close> to \<open>w'\<close> the mutator calls \<open>cs\<close> were recorded and nothing
  else changed except possibly the file system, the output, the clock position, the
  registry values and the property list.
\<close>

definition frame :: "world \<Rightarrow> world \<Rightarrow> call list \<Rightarrow> bool" where
  "frame w w' cs =
     (w'\<lparr>fs := fs w, printed := printed w, ticks := ticks w,
         reg_values := reg_values w, plist_uuid := plist_uuid w\<rparr> = w\<lparr>calls := calls w @ cs\<rparr>)"

section \<open>Tokens drawn and concrete runs\<close>

text \<open>The token that the \<open>i\<close>-th call of \<^verbatim>\<open>uuid.uuid4()\<close> from state \<open>w\<close> returns.\<close>

definition new_token :: "world \<Rightarrow> nat \<Rightarrow> string" where
  "new_token w i = uuid_str (uuid_version4 (urandom w (draws w + i)))"

text \<open>
  A Linux installation with no file yet, a clock that stands still, a random source that
  counts, nothing typed and no Cursor process. The concrete runs below change a few
  fields of it.
\<close>

definition world0 :: world where
  "world0 = \<lparr>platform = ''linux'', home = ''/home/u'', appdata = None,
      db_path = ''/c/storage.json'', sqlite_path = ''/c/state.vscdb'',
      fs = Map.empty, unreadable = (\<lambda>p. False), unwritable = (\<lambda>p. False),
      makedirs_fails = False, clock = (\<lambda>n. ''20240101_000000''), ticks = 0,
      urandom = (\<lambda>n. word_of_nat n), draws = 0, stdin = [], printed = [], calls = [],
      tasklist = ToolNotFound, wmic = ToolNotFound, pgrep = Completed 1 [],
      winreg_importable = False, reg_open = (\<lambda>k. KeyNotFound), reg_values = Map.empty,
      plist_uuid = None, plutil_status = 1\<rparr>"

definition ids0 :: ids where
  "ids0 = [(''telemetry.devDeviceId'', ''d''), (''telemetry.macMachineId'', ''m''),
           (''telemetry.machineId'', ''i''), (''telemetry.sqmId'', ''s''),
           (''storage.serviceMachineId'', ''v'')]"

text \<open>storage.json holds \<^verbatim>\<open>{"unrelated.key": "x"}\<close>.\<close>

definition world_json :: world where
  "world_json =
     world0\<lparr>fs := [''/c/storage.json'' \<mapsto> JsonDoc (PDict [(''unrelated.key'', PStr ''x'')])]\<rparr>"


text \<open>storage.json holds \<^verbatim>\<open>{"unrelated.key": "x", "telemetry.sqmId": "old"}\<close>.\<close>

definition world_json_old :: world where
  "world_json_old =
     world0\<lparr>fs := [''/c/storage.json'' \<mapsto>
        JsonDoc (PDict [(''unrelated.key'', PStr ''x''), (''telemetry.sqmId'', PStr ''old'')])]\<rparr>"




text \<open>
  Only state.vscdb exists and the operator confirms; the marker file exists and its backup
  copy cannot be written; storage.json exists and its backup copy cannot be written.
\<close>

definition world_sqlite_only :: world where
  "world_sqlite_only =
     world0\<lparr>fs := [''/c/state.vscdb'' \<mapsto> SqliteDb (Some [])], stdin := [''y'']\<rparr>"

definition world_marker :: world where
  "world_marker =
     world0\<lparr>fs := [''/home/u/.config/Cursor/User/machineId'' \<mapsto> TextFile ''old''],
            unwritable := (\<lambda>p. p = ''/home/u/.config/Cursor/User/machineId.restore_bak.20240101_000000'')\<rparr>"

definition world_json_nobackup :: world where
  "world_json_nobackup =
     world_json_old\<lparr>unwritable := (\<lambda>p. p = ''/c/storage.json.restore_bak.20240101_000000'')\<rparr>"

text \<open>
  Cursor is running and the operator declines; Cursor is not running, storage.json exists
  and the operator declines the reset; state.vscdb has no \<^verbatim>\<open>ItemTable\<close> and the operator
  declines the reset.
\<close>

definition world_running_decline :: world where
  "world_running_decline =
     world_json\<lparr>pgrep := Completed 0 ''4242'', stdin := [''n'']\<rparr>"

definition world_confirm_decline :: world where
  "world_confirm_decline = world_json\<lparr>stdin := [''N'']\<rparr>"

definition world_no_table :: world where
  "world_no_table = world0\<lparr>fs := [''/c/state.vscdb'' \<mapsto> SqliteDb None], stdin := [''n'']\<rparr>"

text \<open>
  storage.json and state.vscdb exist, the operator confirms, and the copy of storage.json
  that \<^verbatim>\<open>update_current_file\<close> makes first cannot be written.
\<close>

definition world_canonical_fails :: world where
  "world_canonical_fails =
     world0\<lparr>fs := [''/c/storage.json'' \<mapsto> JsonDoc (PDict [(''unrelated.key'', PStr ''x'')]),
                  ''/c/state.vscdb'' \<mapsto> SqliteDb (Some [])],
            unwritable := (\<lambda>p. p = ''/c/storage.json.restore_bak.20240101_000000''),
            stdin := [''y'']\<rparr>"

section \<open>Dictionaries\<close>

lemma foldl_update_other:
  "k \<notin> fst ` set i \<Longrightarrow>
   map_of (foldl (\<lambda>acc kv. AList.update (fst kv) (g (snd kv)) acc) d i) k = map_of d k"
  by (induction i arbitrary: d) (auto simp: update_conv')

lemma foldl_update_member:
  "distinct (map fst i) \<Longrightarrow> (k, v) \<in> set i \<Longrightarrow>
   map_of (foldl (\<lambda>acc kv. AList.update (fst kv) (g (snd kv)) acc) d i) k = Some (g v)"
proof (induction i arbitrary: d)
  case Nil
  then show ?case by simp
next
  case (Cons x xs)
  show ?case
  proof (cases "(k, v) = x")
    case True
    with Cons.prems have "k \<notin> fst ` set xs" by (force simp: image_iff)
    then have "map_of (foldl (\<lambda>acc kv. AList.update (fst kv) (g (snd kv)) acc)
                 (AList.update (fst x) (g (snd x)) d) xs) k
               = map_of (AList.update (fst x) (g (snd x)) d) k"
      by (rule foldl_update_other)
    also have "\<dots> = Some (g v)" using True by (auto simp: update_conv')
    finally show ?thesis by simp
  next
    case False
    with Cons show ?thesis by simp
  qed
qed


section \<open>The token format\<close>

lemma nibble_lt: "nibble n i < 16"
proof -
  have "drop_bit (4 * (31 - i)) n AND 0xf \<le> (0xf :: 128 word)"
    by (rule word_and_le1)
  then have "unat (drop_bit (4 * (31 - i)) n AND 0xf) \<le> unat (0xf :: 128 word)"
    by (simp add: word_le_nat_alt)
  then show ?thesis by (simp add: nibble_def)
qed

lemma hexdigit_hex: "d < 16 \<Longrightarrow> is_hex_lower (hexdigit d)"
  unfolding is_hex_lower_def hexdigit_def
  by (rule nth_mem) simp

lemma length_hex32: "length (hex32 n) = 32"
  by (simp add: hex32_def)

lemma hex32_all: "list_all is_hex_lower (hex32 n)"
  by (simp add: hex32_def list_all_iff hexdigit_hex nibble_lt)

lemma list_all_take: "list_all P xs \<Longrightarrow> list_all P (take k xs)"
  by (auto simp: list_all_iff dest: in_set_takeD)

lemma list_all_drop: "list_all P xs \<Longrightarrow> list_all P (drop k xs)"
  by (auto simp: list_all_iff dest: in_set_dropD)

lemma uuid_str_format: "is_uuid_format (uuid_str n)"
proof -
  define x where "x = hex32 n"
  have len: "length x = 32" by (simp add: x_def length_hex32)
  have all: "list_all is_hex_lower x" by (simp add: x_def hex32_all)
  have a: "list_all is_hex_lower (take k (drop j x))" for k j
    using all by (simp add: list_all_take list_all_drop)
  have b: "list_all is_hex_lower (drop j x)" for j
    using all by (simp add: list_all_drop)
  show ?thesis
    unfolding uuid_str_def Let_def x_def[symmetric] is_uuid_format_def
    using len a b all by (simp add: nth_append list_all_take)
qed

text \<open>Two integers with the same string form are equal: each bit is a bit of a digit.\<close>

lemma bit_nibble: "j < 4 \<Longrightarrow> bit (nibble n i) j = bit n (4 * (31 - i) + j)"
proof -
  assume j: "j < 4"
  have m: "(0xf :: 128 word) = mask 4" by (simp add: mask_eq_exp_minus_1)
  show ?thesis
    unfolding nibble_def m
    using j by (auto simp add: bit_unsigned_iff bit_and_iff bit_mask_iff bit_drop_bit_eq
                     dest: bit_imp_le_length)
qed

lemma hexdigit_inj: "a < 16 \<Longrightarrow> b < 16 \<Longrightarrow> hexdigit a = hexdigit b \<Longrightarrow> a = b"
  unfolding hexdigit_def
  by (subst (asm) nth_eq_iff_index_eq) simp_all

lemma hex32_inj:
  assumes "hex32 a = hex32 b"
  shows "a = b"
proof (rule bit_eqI)
  fix k
  assume "possible_bit TYPE(128 word) k"
  then have k: "k < 128" by (simp add: possible_bit_def)
  define i where "i = 31 - k div 4"
  have i: "i < 32" by (simp add: i_def)
  have "hex32 a ! i = hex32 b ! i" using assms by simp
  then have "hexdigit (nibble a i) = hexdigit (nibble b i)"
    using i by (simp add: hex32_def)
  then have eq: "nibble a i = nibble b i"
    by (rule hexdigit_inj[OF nibble_lt nibble_lt])
  have pos: "4 * (31 - i) + k mod 4 = k"
    using k unfolding i_def by presburger
  have "bit (nibble a i) (k mod 4) = bit (nibble b i) (k mod 4)" using eq by simp
  then show "bit a k = bit b k"
    by (simp add: bit_nibble pos)
qed

lemma regroup:
  "take 8 z @ take 4 (drop 8 z) @ take 4 (drop 12 z) @ take 4 (drop 16 z) @ drop 20 z = z"
proof -
  have a: "take 4 (drop 16 z) @ drop 20 z = drop 16 z"
    using append_take_drop_id[of 4 "drop 16 z"] by simp
  have b: "take 4 (drop 12 z) @ drop 16 z = drop 12 z"
    using append_take_drop_id[of 4 "drop 12 z"] by simp
  have c: "take 4 (drop 8 z) @ drop 12 z = drop 8 z"
    using append_take_drop_id[of 4 "drop 8 z"] by simp
  show ?thesis by (simp only: a b c append_take_drop_id)
qed

lemma uuid_str_inj:
  assumes "uuid_str a = uuid_str b"
  shows "a = b"
proof -
  define x where "x = hex32 a"
  define y where "y = hex32 b"
  have lx: "length x = 32" and ly: "length y = 32"
    by (simp_all add: x_def y_def length_hex32)
  from assms have e:
    "take 8 x @ ''-'' @ take 4 (drop 8 x) @ ''-'' @ take 4 (drop 12 x) @ ''-''
       @ take 4 (drop 16 x) @ ''-'' @ drop 20 x
     = take 8 y @ ''-'' @ take 4 (drop 8 y) @ ''-'' @ take 4 (drop 12 y) @ ''-''
       @ take 4 (drop 16 y) @ ''-'' @ drop 20 y"
    by (simp add: uuid_str_def Let_def x_def y_def)
  have p1: "take 8 x = take 8 y" and r1: "take 4 (drop 8 x) = take 4 (drop 8 y)"
    and r2: "take 4 (drop 12 x) = take 4 (drop 12 y)"
    and r3: "take 4 (drop 16 x) = take 4 (drop 16 y)"
    and r4: "drop 20 x = drop 20 y"
    using e lx ly by simp_all
  have "x = take 8 x @ take 4 (drop 8 x) @ take 4 (drop 12 x) @ take 4 (drop 16 x) @ drop 20 x"
    by (simp only: regroup)
  also have "\<dots> = take 8 y @ take 4 (drop 8 y) @ take 4 (drop 12 y) @ take 4 (drop 16 y) @ drop 20 y"
    by (simp only: p1 r1 r2 r3 r4)
  also have "\<dots> = y" by (simp only: regroup)
  finally show ?thesis by (simp add: x_def y_def hex32_inj)
qed

lemma new_token_eq_iff:
  "(new_token w i = new_token w j)
     = (uuid_version4 (urandom w (draws w + i)) = uuid_version4 (urandom w (draws w + j)))"
  unfolding new_token_def by (auto dest: uuid_str_inj)

section \<open>generate\_new\_ids\<close>

lemma generate_new_ids_fst:
  "fst (generate_new_ids w) =
     [(''telemetry.devDeviceId'', new_token w 0), (''telemetry.macMachineId'', new_token w 1),
      (''telemetry.machineId'', new_token w 2), (''telemetry.sqmId'', new_token w 3),
      (''storage.serviceMachineId'', new_token w 4)]"
  by (simp add: generate_new_ids_def uuid4_def say_def Let_def split_def new_token_def
        eval_nat_numeral)

lemma generate_new_ids_snd:
  "snd (generate_new_ids w)
     = w\<lparr>printed := printed w @ [MsgGeneratingNewIds], draws := draws w + 5\<rparr>"
  by (simp add: generate_new_ids_def uuid4_def say_def Let_def split_def eval_nat_numeral)

text \<open>
  C5, as amended. \<^verbatim>\<open>generate_new_ids\<close> returns the five identifier names, in the order of
  the source, each with a value in the 36-character lowercase 8-4-4-4-12 format. The five
  values are pairwise distinct exactly when the five random draws are pairwise distinct
  after the version and variant bits have been set: the script compares nothing.
\<close>

theorem generate_new_ids_tokens:
  "map fst (fst (generate_new_ids w)) = id_keys
   \<and> list_all is_uuid_format (map snd (fst (generate_new_ids w)))
   \<and> distinct (map snd (fst (generate_new_ids w)))
       = distinct (map (\<lambda>i. uuid_version4 (urandom w (draws w + i))) [0, 1, 2, 3, 4])"
  by (simp add: generate_new_ids_fst id_keys_def new_token_eq_iff)
     (simp add: new_token_def uuid_str_format)

text \<open>
  C5 as stated fails: when \<^verbatim>\<open>os.urandom\<close> returns the same sixteen bytes at every draw,
  the five values of the set are equal.
\<close>

theorem generate_new_ids_repeated_draw_counterexample:
  "\<not> distinct (map snd (fst (generate_new_ids (world0\<lparr>urandom := (\<lambda>n. 0)\<rparr>))))"
  by (simp add: generate_new_ids_fst new_token_def)

section \<open>What a step leaves alone\<close>

lemmas io_defs = say_def record_call_def now_timestamp_def input_line_def path_exists_def
  read_json_def write_json_def copy2_def open_item_table_def

lemma foldl_printed:
  "foldl (\<lambda>w kv. w\<lparr>printed := printed w @ [f kv]\<rparr>) w xs = w\<lparr>printed := printed w @ map f xs\<rparr>"
  by (induction xs arbitrary: w) simp_all

lemma frame_refl: "frame w w []"
  by (simp add: frame_def)

lemma frame_upd:
  "frame w (w'\<lparr>fs := F\<rparr>) cs = frame w w' cs"
  "frame w (w'\<lparr>printed := P\<rparr>) cs = frame w w' cs"
  "frame w (w'\<lparr>ticks := T\<rparr>) cs = frame w w' cs"
  "frame w (w'\<lparr>reg_values := R\<rparr>) cs = frame w w' cs"
  "frame w (w'\<lparr>plist_uuid := U\<rparr>) cs = frame w w' cs"
  by (simp_all add: frame_def)

lemma frame_fields:
  assumes "frame w w' cs"
  shows "calls w' = calls w @ cs" and "draws w' = draws w" and "urandom w' = urandom w"
    and "stdin w' = stdin w" and "db_path w' = db_path w" and "sqlite_path w' = sqlite_path w"
    and "platform w' = platform w" and "home w' = home w" and "appdata w' = appdata w"
    and "clock w' = clock w" and "unreadable w' = unreadable w" and "unwritable w' = unwritable w"
    and "makedirs_fails w' = makedirs_fails w"
proof -
  let ?l = "w'\<lparr>fs := fs w, printed := printed w, ticks := ticks w,
         reg_values := reg_values w, plist_uuid := plist_uuid w\<rparr>"
  let ?r = "w\<lparr>calls := calls w @ cs\<rparr>"
  have e: "?l = ?r" using assms by (simp add: frame_def)
  have "calls ?l = calls ?r" by (simp only: e)
  then show "calls w' = calls w @ cs" by simp
  have "draws ?l = draws ?r" by (simp only: e)
  then show "draws w' = draws w" by simp
  have "urandom ?l = urandom ?r" by (simp only: e)
  then show "urandom w' = urandom w" by simp
  have "stdin ?l = stdin ?r" by (simp only: e)
  then show "stdin w' = stdin w" by simp
  have "db_path ?l = db_path ?r" by (simp only: e)
  then show "db_path w' = db_path w" by simp
  have "sqlite_path ?l = sqlite_path ?r" by (simp only: e)
  then show "sqlite_path w' = sqlite_path w" by simp
  have "platform ?l = platform ?r" by (simp only: e)
  then show "platform w' = platform w" by simp
  have "home ?l = home ?r" by (simp only: e)
  then show "home w' = home w" by simp
  have "appdata ?l = appdata ?r" by (simp only: e)
  then show "appdata w' = appdata w" by simp
  have "clock ?l = clock ?r" by (simp only: e)
  then show "clock w' = clock w" by simp
  have "unreadable ?l = unreadable ?r" by (simp only: e)
  then show "unreadable w' = unreadable w" by simp
  have "unwritable ?l = unwritable ?r" by (simp only: e)
  then show "unwritable w' = unwritable w" by simp
  have "makedirs_fails ?l = makedirs_fails ?r" by (simp only: e)
  then show "makedirs_fails w' = makedirs_fails w" by simp
qed

lemma frame_trans:
  assumes "frame a b cs" and "frame b c ds"
  shows "frame a c (cs @ ds)"
proof -
  have 1: "b\<lparr>fs := fs a, printed := printed a, ticks := ticks a,
         reg_values := reg_values a, plist_uuid := plist_uuid a\<rparr> = a\<lparr>calls := calls a @ cs\<rparr>"
    using assms(1) by (simp add: frame_def)
  have 2: "c\<lparr>fs := fs b, printed := printed b, ticks := ticks b,
         reg_values := reg_values b, plist_uuid := plist_uuid b\<rparr> = b\<lparr>calls := calls b @ ds\<rparr>"
    using assms(2) by (simp add: frame_def)
  have cb: "calls b = calls a @ cs" using assms(1) by (rule frame_fields)
  have "c\<lparr>fs := fs a, printed := printed a, ticks := ticks a,
         reg_values := reg_values a, plist_uuid := plist_uuid a\<rparr>
        = (c\<lparr>fs := fs b, printed := printed b, ticks := ticks b,
         reg_values := reg_values b, plist_uuid := plist_uuid b\<rparr>)\<lparr>fs := fs a, printed := printed a, ticks := ticks a,
         reg_values := reg_values a, plist_uuid := plist_uuid a\<rparr>"
    by simp
  also have "\<dots> = (b\<lparr>calls := calls b @ ds\<rparr>)\<lparr>fs := fs a, printed := printed a, ticks := ticks a,
         reg_values := reg_values a, plist_uuid := plist_uuid a\<rparr>"
    by (simp only: 2)
  also have "\<dots> = (b\<lparr>fs := fs a, printed := printed a, ticks := ticks a,
         reg_values := reg_values a, plist_uuid := plist_uuid a\<rparr>)\<lparr>calls := calls b @ ds\<rparr>"
    by simp
  also have "\<dots> = (a\<lparr>calls := calls a @ cs\<rparr>)\<lparr>calls := calls b @ ds\<rparr>"
    by (simp only: 1)
  also have "\<dots> = a\<lparr>calls := calls a @ cs @ ds\<rparr>"
    by (simp add: cb)
  finally show ?thesis by (simp add: frame_def)
qed

section \<open>backup\_current\_ids\<close>





lemma path_join_platform: "platform w' = platform w \<Longrightarrow> path_join w' = path_join w"
  by (intro ext) (simp add: path_join_def path_seps_def)

lemma path_dirname_platform: "platform w' = platform w \<Longrightarrow> path_dirname w' = path_dirname w"
  by (intro ext) (simp add: path_dirname_def path_seps_def)

lemma backup_read_storage_fst:
  "fst (backup_read_storage w) =
     (case fs w (db_path w) of
        Some (JsonDoc (PDict sd)) \<Rightarrow>
          if unreadable w (db_path w) then []
          else map (\<lambda>key. (key, dict_get_default sd key (PStr []))) id_keys
      | _ \<Rightarrow> [])"
  unfolding backup_read_storage_def path_exists_def read_json_def
  by (simp add: id_keys_def split: option.splits content.splits pyval.splits)

lemma backup_read_storage_world:
  "snd (backup_read_storage w) = w \<or> snd (backup_read_storage w) = say MsgStorageReadWarning w"
  unfolding backup_read_storage_def
  by (simp split: option.splits pyval.splits)

lemma backup_merge_sqlite_no_rows: "backup_merge_sqlite [] ks cur = (cur, True)"
  by (induction ks) simp_all

lemma backup_read_sqlite_fst:
  "fst (backup_read_sqlite cur w) =
     (case fs w (sqlite_path w) of
        Some (SqliteDb (Some rows)) \<Rightarrow>
          if unreadable w (sqlite_path w) then cur
          else fst (backup_merge_sqlite rows id_keys cur)
      | _ \<Rightarrow> cur)"
  unfolding backup_read_sqlite_def path_exists_def open_item_table_def
  by (auto simp: backup_merge_sqlite_no_rows split: option.splits content.splits prod.splits bool.splits)

lemma backup_read_sqlite_frame: "frame w (snd (backup_read_sqlite cur w)) []"
  unfolding backup_read_sqlite_def path_exists_def open_item_table_def say_def
  by (simp add: frame_def split: option.splits content.splits prod.splits bool.splits)

lemma backup_read_sqlite_ticks: "ticks (snd (backup_read_sqlite cur w)) = ticks w"
  unfolding backup_read_sqlite_def path_exists_def open_item_table_def say_def
  by (simp split: option.splits content.splits prod.splits bool.splits)

lemma backup_read_storage_frame: "frame w (snd (backup_read_storage w)) []"
  using backup_read_storage_world[of w] by (auto simp: frame_def say_def)

lemma backup_read_storage_fs:
  "fs (snd (backup_read_storage w)) = fs w" "ticks (snd (backup_read_storage w)) = ticks w"
  using backup_read_storage_world[of w] by (auto simp: say_def)










section \<open>update\_current\_file\<close>

lemma update_current_file_True:
  assumes "update_current_file new_ids w = (True, w')"
  shows "\<exists>d. fs w (db_path w) = Some (JsonDoc (PDict d))
           \<and> fs w' (db_path w) = Some (JsonDoc (PDict (dict_update d new_ids)))
           \<and> db_path w' = db_path w"
  using assms
  unfolding update_current_file_def Let_def split_def record_call_def say_def path_exists_def
    read_json_def copy2_def write_json_def now_timestamp_def
  by (auto split: option.splits if_splits pyval.splits content.splits)

text \<open>
  C4. When \<^verbatim>\<open>update_current_file\<close> succeeds, storage.json held a JSON object before and
  the same path holds one after; every key that is not a key of the new identifier set has
  the value it had, and every key of the set has the set's value, whether the document had
  the key or not. The path of the store is what it was.
\<close>

theorem update_current_file_preserves_unrelated:
  assumes "update_current_file new_ids w = (True, w')" and "distinct (map fst new_ids)"
  shows "\<exists>d d'. fs w (db_path w) = Some (JsonDoc (PDict d))
           \<and> fs w' (db_path w) = Some (JsonDoc (PDict d'))
           \<and> db_path w' = db_path w
           \<and> d' = dict_update d new_ids
           \<and> (\<forall>k. k \<notin> fst ` set new_ids \<longrightarrow> map_of d' k = map_of d k)
           \<and> (\<forall>k v. (k, v) \<in> set new_ids \<longrightarrow> map_of d' k = Some (PStr v))"
proof -
  from update_current_file_True[OF assms(1)] obtain d where
    d: "fs w (db_path w) = Some (JsonDoc (PDict d))"
       "fs w' (db_path w) = Some (JsonDoc (PDict (dict_update d new_ids)))"
       "db_path w' = db_path w" by blast
  have a: "\<forall>k. k \<notin> fst ` set new_ids \<longrightarrow> map_of (dict_update d new_ids) k = map_of d k"
    by (simp add: dict_update_def foldl_update_other)
  have b: "\<forall>k v. (k, v) \<in> set new_ids \<longrightarrow> map_of (dict_update d new_ids) k = Some (PStr v)"
    using assms(2) by (simp add: dict_update_def foldl_update_member)
  show ?thesis using d a b by blast
qed

text \<open>
  The run on \<^verbatim>\<open>{"unrelated.key": "x", "telemetry.sqmId": "old"}\<close>: the unrelated key keeps
  its value, the identifier the document had is replaced and one it did not have is added.
\<close>

lemma world_json_old_run: "fst (update_current_file ids0 world_json_old) = True"
  by (simp add: update_current_file_def Let_def split_def record_call_def say_def
        path_exists_def read_json_def copy2_def write_json_def now_timestamp_def
        world_json_old_def world0_def ids0_def dict_update_def)

theorem update_current_file_preserves_unrelated_witness:
  "update_current_file ids0 world_json_old
     = (True, snd (update_current_file ids0 world_json_old))
   \<and> distinct (map fst ids0)
   \<and> fs world_json_old (db_path world_json_old)
       = Some (JsonDoc (PDict [(''unrelated.key'', PStr ''x''), (''telemetry.sqmId'', PStr ''old'')]))
   \<and> (\<exists>d'. fs (snd (update_current_file ids0 world_json_old)) (db_path world_json_old)
               = Some (JsonDoc (PDict d'))
           \<and> map_of d' ''unrelated.key'' = Some (PStr ''x'')
           \<and> map_of d' ''telemetry.sqmId'' = Some (PStr ''s'')
           \<and> map_of d' ''telemetry.devDeviceId'' = Some (PStr ''d''))"
proof -
  have r: "update_current_file ids0 world_json_old
             = (True, snd (update_current_file ids0 world_json_old))"
    using world_json_old_run by (simp add: prod_eq_iff)
  have dd: "distinct (map fst ids0)" by (simp add: ids0_def)
  have f: "fs world_json_old (db_path world_json_old)
       = Some (JsonDoc (PDict [(''unrelated.key'', PStr ''x''), (''telemetry.sqmId'', PStr ''old'')]))"
    by (simp add: world_json_old_def world0_def)
  from update_current_file_preserves_unrelated[OF r dd] obtain d d' where
    h: "fs world_json_old (db_path world_json_old) = Some (JsonDoc (PDict d))"
       "fs (snd (update_current_file ids0 world_json_old)) (db_path world_json_old)
          = Some (JsonDoc (PDict d'))"
       "\<forall>k. k \<notin> fst ` set ids0 \<longrightarrow> map_of d' k = map_of d k"
       "\<forall>k v. (k, v) \<in> set ids0 \<longrightarrow> map_of d' k = Some (PStr v)" by blast
  from h(1) f have d: "d = [(''unrelated.key'', PStr ''x''), (''telemetry.sqmId'', PStr ''old'')]"
    by simp
  have "''unrelated.key'' \<notin> fst ` set ids0" by (simp add: ids0_def)
  with h(3) d have u: "map_of d' ''unrelated.key'' = Some (PStr ''x'')" by simp
  have "(''telemetry.sqmId'', ''s'') \<in> set ids0" by (simp add: ids0_def)
  with h(4) have s: "map_of d' ''telemetry.sqmId'' = Some (PStr ''s'')" by blast
  have "(''telemetry.devDeviceId'', ''d'') \<in> set ids0" by (simp add: ids0_def)
  with h(4) have n: "map_of d' ''telemetry.devDeviceId'' = Some (PStr ''d'')" by blast
  show ?thesis using r dd f h(2) u s n by blast
qed

section \<open>check\_cursor\_running\<close>

lemma machine_id_path_eq:
  "platform w' = platform w \<Longrightarrow> home w' = home w \<Longrightarrow> appdata w' = appdata w
   \<Longrightarrow> get_cursor_machine_id_path w' = get_cursor_machine_id_path w"
  by (simp add: get_cursor_machine_id_path_def path_join_platform[of w' w] split: option.splits)

lemma check_pgrep_cases:
  "check_pgrep w = (Some False, None) \<or> (\<exists>pid. check_pgrep w = (Some True, pid))"
  unfolding check_pgrep_def
  by (simp split: proc_result.splits list.splits option.splits)

lemma parse_tasklist_cases: "\<exists>pid. parse_tasklist out = (Some True, pid)"
  unfolding parse_tasklist_def Let_def
  by (simp split: option.splits)

lemma check_cursor_running_cases:
  "check_cursor_running w = (Some False, None) \<or> (\<exists>pid. check_cursor_running w = (Some True, pid))"
  unfolding check_cursor_running_def
  using check_pgrep_cases[of w] parse_tasklist_cases
  by (simp split: proc_result.splits)

lemma check_cursor_running_say: "check_cursor_running (say m w) = check_cursor_running w"
  by (simp add: check_cursor_running_def check_pgrep_def say_def split: proc_result.splits)




section \<open>No file of Cursor\<close>

lemma reset_files_no_files:
  assumes "\<not> path_exists w (db_path w)" and "\<not> path_exists w (sqlite_path w)"
    and "\<not> path_exists w (get_cursor_machine_id_path w)"
  shows "reset_files w = (False, say (MsgExpectedPaths (db_path w) (sqlite_path w)
                                   (get_cursor_machine_id_path w)) (say MsgFilesNotFound w))"
  using assms by (simp add: reset_files_def Let_def)

text \<open>
  C10. When none of storage.json, state.vscdb and the machineId file exists,
  \<^verbatim>\<open>reset_machine_ids\<close> returns \<open>False\<close>; the final state differs from the initial one
  only in what was printed and what was read from the operator: no file, registry value or
  property list changed, no mutator was called, no random token and no timestamp was drawn,
  and neither the backup, nor the generation, nor the confirmation prompt was announced.
  When Cursor is not running, exactly three lines are printed.
\<close>

theorem reset_machine_ids_no_files:
  assumes "\<not> path_exists w (db_path w)" and "\<not> path_exists w (sqlite_path w)"
    and "\<not> path_exists w (get_cursor_machine_id_path w)"
    and "reset_machine_ids w = (r, w')"
  shows "r = False
    \<and> w'\<lparr>printed := printed w, stdin := stdin w\<rparr> = w
    \<and> (\<exists>ms. printed w' = printed w @ ms \<and> MsgBackingUpCurrent \<notin> set ms
           \<and> MsgGeneratingNewIds \<notin> set ms \<and> PromptConfirm \<notin> set ms)
    \<and> (fst (check_cursor_running w) = Some False \<longrightarrow>
          w' = w\<lparr>printed := printed w @ [MsgStarting, MsgFilesNotFound,
                    MsgExpectedPaths (db_path w) (sqlite_path w) (get_cursor_machine_id_path w)]\<rparr>)"
proof -
  define w1 where "w1 = say MsgStarting w"
  have e1: "reset_machine_ids w = reset_after_check (check_cursor_running w) w1"
    by (simp add: reset_machine_ids_def w1_def check_cursor_running_say)
  have nf: "reset_files w2 = (False, say (MsgExpectedPaths (db_path w) (sqlite_path w)
                                   (get_cursor_machine_id_path w)) (say MsgFilesNotFound w2))"
    if "w2 = w\<lparr>printed := P, stdin := S\<rparr>" for w2 P S
  proof -
    have m: "get_cursor_machine_id_path w2 = get_cursor_machine_id_path w"
      by (rule machine_id_path_eq) (simp_all add: that)
    have "\<not> path_exists w2 (db_path w2)" "\<not> path_exists w2 (sqlite_path w2)"
         "\<not> path_exists w2 (get_cursor_machine_id_path w2)"
      using assms(1,2,3) unfolding m by (simp_all add: that path_exists_def)
    from reset_files_no_files[OF this] show ?thesis unfolding m by (simp add: that)
  qed
  consider (quiet) "check_cursor_running w = (Some False, None)"
    | (running) pid where "check_cursor_running w = (Some True, pid)"
    using check_cursor_running_cases[of w] by blast
  then show ?thesis
  proof cases
    case quiet
    have "reset_machine_ids w = reset_files w1"
      unfolding e1 quiet by (simp add: reset_after_check_def)
    also have "\<dots> = (False, say (MsgExpectedPaths (db_path w) (sqlite_path w)
                                   (get_cursor_machine_id_path w)) (say MsgFilesNotFound w1))"
      by (rule nf[where P = "printed w @ [MsgStarting]" and S = "stdin w"])
         (simp add: w1_def say_def)
    finally show ?thesis using assms(4) quiet by (auto simp: w1_def say_def)
  next
    case running
    show ?thesis
    proof (cases "stdin w")
      case Nil
      then show ?thesis
        using assms(4) unfolding e1 running
        by (auto simp: reset_after_check_def input_line_def say_def w1_def Let_def)
    next
      case (Cons a rest)
      show ?thesis
      proof (cases "py_lower a = ''y''")
        case False
        then show ?thesis
          using assms(4) Cons unfolding e1 running
          by (auto simp: reset_after_check_def input_line_def say_def w1_def Let_def)
      next
        case True
        define w2 where "w2 = w\<lparr>printed := printed w @ [MsgStarting, MsgCursorRunning pid,
                                 MsgCloseRecommended, PromptContinueAnyway], stdin := rest\<rparr>"
        have "reset_machine_ids w = reset_files w2"
          using True Cons unfolding e1 running
          by (simp add: reset_after_check_def input_line_def say_def w1_def Let_def w2_def)
        also have "\<dots> = (False, say (MsgExpectedPaths (db_path w) (sqlite_path w)
                                   (get_cursor_machine_id_path w)) (say MsgFilesNotFound w2))"
          by (rule nf[OF w2_def])
        finally show ?thesis using assms(4) running Cons by (auto simp: w2_def say_def)
      qed
    qed
  qed
qed

theorem reset_machine_ids_no_files_witness:
  "\<not> path_exists world0 (db_path world0) \<and> \<not> path_exists world0 (sqlite_path world0)
   \<and> \<not> path_exists world0 (get_cursor_machine_id_path world0)
   \<and> fst (check_cursor_running world0) = Some False
   \<and> reset_machine_ids world0
       = (False, world0\<lparr>printed := [MsgStarting, MsgFilesNotFound,
            MsgExpectedPaths ''/c/storage.json'' ''/c/state.vscdb''
              ''/home/u/.config/Cursor/User/machineId'']\<rparr>)"
proof -
  have a: "\<not> path_exists world0 (db_path world0)" "\<not> path_exists world0 (sqlite_path world0)"
    "\<not> path_exists world0 (get_cursor_machine_id_path world0)"
    by (simp_all add: path_exists_def world0_def)
  have c: "fst (check_cursor_running world0) = Some False" by code_simp
  have p: "get_cursor_machine_id_path world0 = ''/home/u/.config/Cursor/User/machineId''"
    by code_simp
  have q: "db_path world0 = ''/c/storage.json''" "sqlite_path world0 = ''/c/state.vscdb''"
    "printed world0 = []"
    by (simp_all add: world0_def)
  have r: "reset_machine_ids world0
             = (fst (reset_machine_ids world0), snd (reset_machine_ids world0))" by simp
  from reset_machine_ids_no_files[OF a r] c
  have "fst (reset_machine_ids world0) = False"
    and "snd (reset_machine_ids world0)
          = world0\<lparr>printed := printed world0 @ [MsgStarting, MsgFilesNotFound,
               MsgExpectedPaths (db_path world0) (sqlite_path world0)
                 (get_cursor_machine_id_path world0)]\<rparr>"
    by blast+
  then show ?thesis using a c unfolding p q by (simp add: prod_eq_iff)
qed

section \<open>An absent source file\<close>



section \<open>The four mutators\<close>

lemma update_current_file_frame:
  "frame w (snd (update_current_file new_ids w)) [CallUpdateCurrentFile new_ids]"
  unfolding update_current_file_def Let_def split_def io_defs
  apply (simp split: option.splits content.splits pyval.splits)
  apply (clarsimp simp: frame_def)
  done

lemma update_current_file_system:
  "reg_values (snd (update_current_file new_ids w)) = reg_values w"
  "plist_uuid (snd (update_current_file new_ids w)) = plist_uuid w"
  "draws (snd (update_current_file new_ids w)) = draws w"
  unfolding update_current_file_def Let_def split_def io_defs
  by (simp_all split: option.splits content.splits pyval.splits)

lemma open_item_table_frame:
  "open_item_table p w1 = Some (rows, w') \<Longrightarrow> frame w w1 cs \<Longrightarrow> frame w w' cs"
  unfolding open_item_table_def
  by (auto simp: frame_upd split: if_splits option.splits content.splits)

lemma update_sqlite_db_frame:
  "frame w (snd (update_sqlite_db new_ids w)) [CallUpdateSqliteDb new_ids]"
  unfolding update_sqlite_db_def Let_def say_def record_call_def path_exists_def foldl_printed
    open_item_table_def
  by (auto simp: frame_def split: option.splits content.splits if_splits)

lemma machine_id_path_frame: "frame w w' cs \<Longrightarrow> get_cursor_machine_id_path w' = get_cursor_machine_id_path w"
  by (rule machine_id_path_eq) (simp_all add: frame_fields)

lemma update_machine_id_file_frame:
  "frame w (snd (update_machine_id_file d w)) [CallUpdateMachineIdFile d]"
proof -
  have m: "get_cursor_machine_id_path (record_call c w) = get_cursor_machine_id_path w" for c
    by (rule machine_id_path_eq) (simp_all add: record_call_def)
  show ?thesis
    unfolding update_machine_id_file_def Let_def m split_def
    unfolding say_def record_call_def path_exists_def now_timestamp_def copy2_def
    by (auto simp: frame_def split: option.splits if_splits)
qed

lemma update_machine_guid_frame: "frame w (update_machine_guid new_ids w) []"
  unfolding update_machine_guid_def Let_def say_def
  by (cases "reg_open w cryptography_key") (simp_all add: frame_def)

lemma update_sqm_machine_id_frame: "frame w (update_sqm_machine_id new_ids w) []"
  unfolding update_sqm_machine_id_def Let_def say_def
  by (cases "reg_open w sqmclient_key") (simp_all add: frame_def)

lemma update_windows_system_ids_frame: "frame w (update_windows_system_ids new_ids w) []"
proof (cases "winreg_importable w")
  case True
  have "frame w (update_sqm_machine_id new_ids (update_machine_guid new_ids w)) ([] @ [])"
    by (rule frame_trans[OF update_machine_guid_frame update_sqm_machine_id_frame])
  then show ?thesis using True by (simp add: update_windows_system_ids_def)
next
  case False
  then show ?thesis by (simp add: update_windows_system_ids_def say_def frame_def)
qed

lemma update_macos_system_ids_frame: "frame w (update_macos_system_ids new_ids w) []"
  unfolding update_macos_system_ids_def Let_def say_def
  by (simp add: frame_def)

lemma update_system_ids_frame:
  "frame w (snd (update_system_ids new_ids w)) [CallUpdateSystemIds new_ids]"
proof -
  define w1 where "w1 = say MsgUpdatingSystemIds (record_call (CallUpdateSystemIds new_ids) w)"
  have b: "frame w w1 [CallUpdateSystemIds new_ids]"
    by (simp add: w1_def say_def record_call_def frame_def)
  have "frame w (update_windows_system_ids new_ids w1) ([CallUpdateSystemIds new_ids] @ [])"
    by (rule frame_trans[OF b update_windows_system_ids_frame])
  moreover have "frame w (update_macos_system_ids new_ids w1) ([CallUpdateSystemIds new_ids] @ [])"
    by (rule frame_trans[OF b update_macos_system_ids_frame])
  ultimately show ?thesis
    using b unfolding update_system_ids_def Let_def w1_def[symmetric] by simp
qed

lemma update_system_ids_fs: "fs (snd (update_system_ids new_ids w)) = fs w"
proof -
  have a: "fs (update_machine_guid new_ids w') = fs w'" for w'
    unfolding update_machine_guid_def Let_def say_def
    by (cases "reg_open w' cryptography_key") simp_all
  have b: "fs (update_sqm_machine_id new_ids w') = fs w'" for w'
    unfolding update_sqm_machine_id_def Let_def say_def
    by (cases "reg_open w' sqmclient_key") simp_all
  show ?thesis
    by (simp add: update_system_ids_def update_windows_system_ids_def
          update_macos_system_ids_def Let_def a b say_def record_call_def)
qed

lemma update_system_ids_registry:
  assumes "prefix ''win'' (platform w)" and "winreg_importable w"
    and "reg_open w cryptography_key = Opened" and "reg_open w sqmclient_key = Opened"
    and "ids_get new_ids ''telemetry.devDeviceId'' \<noteq> []"
    and "ids_get new_ids ''telemetry.sqmId'' \<noteq> []"
  shows "reg_values (snd (update_system_ids new_ids w))
          = (reg_values w)((cryptography_key, ''MachineGuid'') \<mapsto> ids_get new_ids ''telemetry.devDeviceId'',
                           (sqmclient_key, ''MachineId'') \<mapsto> ids_get new_ids ''telemetry.sqmId'')"
  using assms
  by (simp add: update_system_ids_def update_windows_system_ids_def update_machine_guid_def
        update_sqm_machine_id_def Let_def say_def record_call_def)

lemma open_item_table_Some:
  "open_item_table p w = Some (rows, w') \<Longrightarrow>
     (fs w p = Some (SqliteDb (Some rows)) \<and> w' = w)
     \<or> (rows = [] \<and> fs w p \<in> {Some (SqliteDb None), Some (TextFile [])}
         \<and> w' = w\<lparr>fs := (fs w)(p \<mapsto> SqliteDb (Some []))\<rparr>)"
  by (auto simp: open_item_table_def split: if_splits option.splits content.splits)

lemma update_sqlite_db_unfold:
  "update_sqlite_db new_ids w =
     (if fs w (sqlite_path w) = None
      then (False, say (MsgSqliteNotFound (sqlite_path w)) (record_call (CallUpdateSqliteDb new_ids) w))
      else case open_item_table (sqlite_path w)
                  (say MsgUpdatingSqlite (record_call (CallUpdateSqliteDb new_ids) w)) of
             None \<Rightarrow> (False, say MsgSqliteUpdateFailed
                                (say MsgUpdatingSqlite (record_call (CallUpdateSqliteDb new_ids) w)))
           | Some (rows, w2) \<Rightarrow>
               if new_ids \<noteq> [] \<and> unwritable w2 (sqlite_path w2)
               then (False, say MsgSqliteUpdateFailed w2)
               else (True, say MsgSqliteUpdated
                       (w2\<lparr>printed := printed w2 @ map (\<lambda>kv. MsgUpdatingPair (fst kv)) new_ids,
                            fs := (fs w2)(sqlite_path w2 \<mapsto> SqliteDb (Some
                               (foldl (\<lambda>acc kv. AList.update (fst kv) (SText (snd kv)) acc)
                                  rows new_ids)))\<rparr>)))"
  unfolding update_sqlite_db_def Let_def path_exists_def
  by (simp add: say_def record_call_def foldl_printed split: option.splits)

lemma update_sqlite_db_rows:
  assumes "fst (update_sqlite_db new_ids w)"
  shows "fs (snd (update_sqlite_db new_ids w)) (sqlite_path w)
           = Some (SqliteDb (Some (foldl (\<lambda>acc kv. AList.update (fst kv) (SText (snd kv)) acc)
                (case fs w (sqlite_path w) of Some (SqliteDb (Some rows)) \<Rightarrow> rows | _ \<Rightarrow> [])
                new_ids)))"
proof -
  define w1 where "w1 = say MsgUpdatingSqlite (record_call (CallUpdateSqliteDb new_ids) w)"
  have p: "fs w1 = fs w" "sqlite_path w1 = sqlite_path w"
    by (simp_all add: w1_def say_def record_call_def)
  show ?thesis
  proof (cases "open_item_table (sqlite_path w) w1")
    case None
    then show ?thesis using assms unfolding update_sqlite_db_unfold w1_def[symmetric]
      by (simp split: if_splits)
  next
    case (Some a)
    obtain rows w2 where a: "a = (rows, w2)" by (cases a)
    from open_item_table_Some[OF Some[unfolded a]] p
    have c: "(fs w (sqlite_path w) = Some (SqliteDb (Some rows)) \<and> w2 = w1)
       \<or> (rows = [] \<and> fs w (sqlite_path w) \<in> {Some (SqliteDb None), Some (TextFile [])}
         \<and> w2 = w1\<lparr>fs := (fs w)(sqlite_path w \<mapsto> SqliteDb (Some []))\<rparr>)"
      by simp
    then have r: "(case fs w (sqlite_path w) of Some (SqliteDb (Some rows)) \<Rightarrow> rows | _ \<Rightarrow> []) = rows"
      and s2: "sqlite_path w2 = sqlite_path w"
      using p by auto
    show ?thesis
      using assms Some unfolding update_sqlite_db_unfold w1_def[symmetric] a r
      by (auto simp: s2 say_def split: if_splits)
  qed
qed

lemma update_sqlite_db_other_files:
  assumes "p \<noteq> sqlite_path w"
  shows "fs (snd (update_sqlite_db new_ids w)) p = fs w p"
proof -
  define w1 where "w1 = say MsgUpdatingSqlite (record_call (CallUpdateSqliteDb new_ids) w)"
  have q: "fs w1 = fs w" "sqlite_path w1 = sqlite_path w"
    by (simp_all add: w1_def say_def record_call_def)
  show ?thesis
  proof (cases "open_item_table (sqlite_path w) w1")
    case None
    then show ?thesis unfolding update_sqlite_db_unfold w1_def[symmetric]
      by (simp add: say_def record_call_def q)
  next
    case (Some a)
    obtain rows w2 where a: "a = (rows, w2)" by (cases a)
    from open_item_table_Some[OF Some[unfolded a]] q
    have c: "sqlite_path w2 = sqlite_path w" "fs w2 p = fs w p"
      using assms by auto
    show ?thesis
      using Some unfolding update_sqlite_db_unfold w1_def[symmetric] a
      by (simp add: c say_def record_call_def assms)
  qed
qed

section \<open>The steps of a run\<close>

lemma backup_read_storage_system:
  "reg_values (snd (backup_read_storage w)) = reg_values w"
  "plist_uuid (snd (backup_read_storage w)) = plist_uuid w"
  using backup_read_storage_world[of w] by (auto simp: say_def)

lemma backup_read_sqlite_system:
  "reg_values (snd (backup_read_sqlite cur w)) = reg_values w"
  "plist_uuid (snd (backup_read_sqlite cur w)) = plist_uuid w"
  unfolding backup_read_sqlite_def path_exists_def open_item_table_def say_def
  by (simp_all split: option.splits content.splits prod.splits bool.splits)

lemma backup_read_sqlite_files:
  "p \<noteq> sqlite_path w \<Longrightarrow> fs (snd (backup_read_sqlite cur w)) p = fs w p"
  "fs (snd (backup_read_sqlite cur w)) (sqlite_path w) = fs w (sqlite_path w)
   \<or> (fs w (sqlite_path w) \<in> {Some (SqliteDb None), Some (TextFile [])}
       \<and> fs (snd (backup_read_sqlite cur w)) (sqlite_path w) = Some (SqliteDb (Some [])))"
  unfolding backup_read_sqlite_def path_exists_def open_item_table_def say_def
  by (simp_all split: option.splits content.splits prod.splits bool.splits)

text \<open>The state in which \<^verbatim>\<open>backup_current_ids\<close> decides whether to write the backup file.\<close>

lemma backup_current_ids_unfold:
  "\<exists>w3. frame w w3 [] \<and> ticks w3 = ticks w
      \<and> reg_values w3 = reg_values w \<and> plist_uuid w3 = plist_uuid w
      \<and> (\<forall>p. p \<noteq> sqlite_path w \<longrightarrow> fs w3 p = fs w p)
      \<and> (fs w3 (sqlite_path w) = fs w (sqlite_path w)
           \<or> (fs w (sqlite_path w) \<in> {Some (SqliteDb None), Some (TextFile [])}
               \<and> fs w3 (sqlite_path w) = Some (SqliteDb (Some []))))
      \<and> backup_current_ids w =
          (let cur = fst (backup_read_sqlite (fst (backup_read_storage w)) w);
               bf = path_join w (path_dirname w (db_path w))
                      (''storage.json.bak.'' @ clock w (ticks w));
               r = write_json bf (PDict cur) (w3\<lparr>ticks := Suc (ticks w3)\<rparr>)
           in if cur \<noteq> [] then
                (if fst r then (True, say (MsgBackupSaved bf) (snd r))
                 else (False, say MsgBackupError (snd r)))
              else (False, say MsgNoCurrentIds w3))"
proof -
  define w1 where "w1 = say MsgBackingUpCurrent w"
  define w2 where "w2 = snd (backup_read_storage w1)"
  define J where "J = fst (backup_read_storage w1)"
  define w3 where "w3 = snd (backup_read_sqlite J w2)"
  define cur where "cur = fst (backup_read_sqlite J w2)"
  have f1: "frame w w1 []" by (simp add: w1_def say_def frame_def)
  have f2: "frame w1 w2 []" unfolding w2_def by (rule backup_read_storage_frame)
  have f3: "frame w2 w3 []" unfolding w3_def by (rule backup_read_sqlite_frame)
  have f12: "frame w w2 []" using frame_trans[OF f1 f2] by simp
  have f13: "frame w w3 []" using frame_trans[OF f12 f3] by simp
  have fs1: "fs w1 = fs w" "ticks w1 = ticks w" "reg_values w1 = reg_values w"
    "plist_uuid w1 = plist_uuid w" by (simp_all add: w1_def say_def)
  have fs2: "fs w2 = fs w" "ticks w2 = ticks w" "reg_values w2 = reg_values w"
    "plist_uuid w2 = plist_uuid w"
    unfolding w2_def by (simp_all add: backup_read_storage_fs backup_read_storage_system fs1)
  have sp2: "sqlite_path w2 = sqlite_path w" by (rule frame_fields(6)[OF f12])
  have t3: "ticks w3 = ticks w" unfolding w3_def by (simp add: backup_read_sqlite_ticks fs2)
  have r3: "reg_values w3 = reg_values w" "plist_uuid w3 = plist_uuid w"
    unfolding w3_def by (simp_all add: backup_read_sqlite_system fs2)
  have o3: "\<forall>p. p \<noteq> sqlite_path w \<longrightarrow> fs w3 p = fs w p"
    unfolding w3_def using backup_read_sqlite_files(1)[of _ w2 J] by (simp add: sp2 fs2)
  have s3: "fs w3 (sqlite_path w) = fs w (sqlite_path w)
           \<or> (fs w (sqlite_path w) \<in> {Some (SqliteDb None), Some (TextFile [])}
               \<and> fs w3 (sqlite_path w) = Some (SqliteDb (Some [])))"
    unfolding w3_def using backup_read_sqlite_files(2)[of J w2] by (simp add: sp2 fs2)
  have J: "J = fst (backup_read_storage w)"
    unfolding J_def backup_read_storage_fst
    by (simp add: fs1 frame_fields(5)[OF f1] frame_fields(11)[OF f1]
          split: option.splits content.splits pyval.splits)
  have c: "cur = fst (backup_read_sqlite (fst (backup_read_storage w)) w)"
    unfolding cur_def backup_read_sqlite_fst J
    by (simp add: fs2 frame_fields(6)[OF f12] frame_fields(11)[OF f12]
          split: option.splits content.splits)
  have p: "path_join w3 = path_join w" "path_dirname w3 = path_dirname w"
    using frame_fields(7)[OF f13] path_join_platform[of w3 w] path_dirname_platform[of w3 w]
    by simp_all
  have p2: "path_join (w3\<lparr>ticks := T\<rparr>) = path_join w" for T
    using frame_fields(7)[OF f13] path_join_platform[of "w3\<lparr>ticks := T\<rparr>" w] by simp
  have q: "db_path w3 = db_path w" "clock w3 = clock w"
    using frame_fields(5)[OF f13] frame_fields(10)[OF f13] by simp_all
  have e: "backup_current_ids w =
          (let cur = fst (backup_read_sqlite (fst (backup_read_storage w)) w);
               bf = path_join w (path_dirname w (db_path w))
                      (''storage.json.bak.'' @ clock w (ticks w));
               r = write_json bf (PDict cur) (w3\<lparr>ticks := Suc (ticks w3)\<rparr>)
           in if cur \<noteq> [] then
                (if fst r then (True, say (MsgBackupSaved bf) (snd r))
                 else (False, say MsgBackupError (snd r)))
              else (False, say MsgNoCurrentIds w3))"
    unfolding backup_current_ids_def Let_def split_def now_timestamp_def
      w1_def[symmetric] J_def[symmetric] w2_def[symmetric] w3_def[symmetric] cur_def[symmetric]
      c[symmetric]
    by (simp add: p p2 q t3 cong: if_cong)
  show ?thesis using f13 t3 r3 o3 s3 e by blast
qed

lemma backup_current_ids_effect:
  "frame w (snd (backup_current_ids w)) []
   \<and> reg_values (snd (backup_current_ids w)) = reg_values w
   \<and> plist_uuid (snd (backup_current_ids w)) = plist_uuid w
   \<and> (\<forall>p. p \<noteq> sqlite_path w
          \<and> p \<noteq> path_join w (path_dirname w (db_path w))
                  (''storage.json.bak.'' @ clock w (ticks w))
          \<longrightarrow> fs (snd (backup_current_ids w)) p = fs w p)
   \<and> (sqlite_path w \<noteq> path_join w (path_dirname w (db_path w))
                          (''storage.json.bak.'' @ clock w (ticks w))
        \<longrightarrow> fs (snd (backup_current_ids w)) (sqlite_path w) = fs w (sqlite_path w)
            \<or> (fs w (sqlite_path w) \<in> {Some (SqliteDb None), Some (TextFile [])}
                \<and> fs (snd (backup_current_ids w)) (sqlite_path w) = Some (SqliteDb (Some []))))"
proof -
  from backup_current_ids_unfold[of w] obtain w3 where
    f: "frame w w3 []" and r: "reg_values w3 = reg_values w" "plist_uuid w3 = plist_uuid w"
    and o: "\<forall>p. p \<noteq> sqlite_path w \<longrightarrow> fs w3 p = fs w p"
    and s: "fs w3 (sqlite_path w) = fs w (sqlite_path w)
           \<or> (fs w (sqlite_path w) \<in> {Some (SqliteDb None), Some (TextFile [])}
               \<and> fs w3 (sqlite_path w) = Some (SqliteDb (Some [])))"
    and e: "backup_current_ids w =
          (let cur = fst (backup_read_sqlite (fst (backup_read_storage w)) w);
               bf = path_join w (path_dirname w (db_path w))
                      (''storage.json.bak.'' @ clock w (ticks w));
               r = write_json bf (PDict cur) (w3\<lparr>ticks := Suc (ticks w3)\<rparr>)
           in if cur \<noteq> [] then
                (if fst r then (True, say (MsgBackupSaved bf) (snd r))
                 else (False, say MsgBackupError (snd r)))
              else (False, say MsgNoCurrentIds w3))"
    by blast
  have 1: "frame w (snd (backup_current_ids w)) []"
    unfolding e Let_def write_json_def say_def using f by (simp add: frame_upd)
  have 2: "reg_values (snd (backup_current_ids w)) = reg_values w"
    "plist_uuid (snd (backup_current_ids w)) = plist_uuid w"
    unfolding e Let_def write_json_def say_def using r by simp_all
  have 3: "fs (snd (backup_current_ids w)) p = fs w p"
    if "p \<noteq> sqlite_path w" "p \<noteq> path_join w (path_dirname w (db_path w))
                  (''storage.json.bak.'' @ clock w (ticks w))" for p
    unfolding e Let_def write_json_def say_def using o that by simp
  have 4: "fs (snd (backup_current_ids w)) (sqlite_path w) = fs w (sqlite_path w)
            \<or> (fs w (sqlite_path w) \<in> {Some (SqliteDb None), Some (TextFile [])}
                \<and> fs (snd (backup_current_ids w)) (sqlite_path w) = Some (SqliteDb (Some [])))"
    if "sqlite_path w \<noteq> path_join w (path_dirname w (db_path w))
                          (''storage.json.bak.'' @ clock w (ticks w))"
    unfolding e Let_def write_json_def say_def using s that by simp
  show ?thesis using 1 2 3 4 by blast
qed

lemma generate_new_ids_source:
  "draws w' = draws w \<Longrightarrow> urandom w' = urandom w
   \<Longrightarrow> fst (generate_new_ids w') = fst (generate_new_ids w)"
  by (simp add: generate_new_ids_fst new_token_def)

lemma reset_preview_fst: "fst (reset_preview w) = fst (generate_new_ids w)"
proof -
  have f: "frame w (snd (backup_current_ids w)) []" using backup_current_ids_effect by blast
  have "fst (reset_preview w) = fst (generate_new_ids (snd (backup_current_ids w)))"
    by (simp add: reset_preview_def Let_def split_def)
  also have "\<dots> = fst (generate_new_ids w)"
    by (rule generate_new_ids_source) (simp_all add: frame_fields[OF f])
  finally show ?thesis .
qed

lemma reset_preview_snd:
  "snd (reset_preview w) =
     (snd (backup_current_ids w))
       \<lparr>printed := printed (snd (backup_current_ids w))
                    @ [MsgGeneratingNewIds, MsgIdsToReset]
                    @ map (\<lambda>kv. MsgIdPreview (fst kv) (snd kv)) (fst (generate_new_ids w)),
        draws := draws w + 5\<rparr>"
proof -
  have f: "frame w (snd (backup_current_ids w)) []" using backup_current_ids_effect by blast
  have g: "fst (generate_new_ids (snd (backup_current_ids w))) = fst (generate_new_ids w)"
    by (rule generate_new_ids_source) (simp_all add: frame_fields[OF f])
  show ?thesis
    unfolding reset_preview_def Let_def split_def generate_new_ids_snd g say_def foldl_printed
    by (simp add: frame_fields(2)[OF f])
qed

lemma reset_confirm_unfold:
  "reset_confirm w =
     (case stdin w of
        [] \<Rightarrow> (False, say MsgProcessError (say PromptConfirm (snd (reset_preview w))))
      | a # rest \<Rightarrow>
          if py_lower a \<noteq> ''y''
          then (False, say MsgOperationCancelled
                         ((say PromptConfirm (snd (reset_preview w)))\<lparr>stdin := rest\<rparr>))
          else reset_apply (fst (generate_new_ids w))
                 ((say PromptConfirm (snd (reset_preview w)))\<lparr>stdin := rest\<rparr>))"
proof -
  have f: "frame w (snd (backup_current_ids w)) []" using backup_current_ids_effect by blast
  have s: "stdin (snd (reset_preview w)) = stdin w"
    unfolding reset_preview_snd by (simp add: frame_fields(4)[OF f])
  show ?thesis
    unfolding reset_confirm_def Let_def split_def input_line_def reset_preview_fst
    by (simp add: say_def s split: list.splits)
qed

lemma reset_apply_fail:
  "\<not> fst (update_current_file new_ids w)
   \<Longrightarrow> reset_apply new_ids w = (False, snd (update_current_file new_ids w))"
  by (simp add: reset_apply_def split_def)

lemma reset_apply_ok:
  assumes "fst (update_current_file new_ids w)"
  shows "fst (reset_apply new_ids w)"
    and "frame w (snd (reset_apply new_ids w))
           [CallUpdateCurrentFile new_ids, CallUpdateSqliteDb new_ids,
            CallUpdateMachineIdFile (ids_get new_ids ''telemetry.devDeviceId''),
            CallUpdateSystemIds new_ids]"
proof -
  define w1 where "w1 = snd (update_current_file new_ids w)"
  define w2 where "w2 = snd (update_sqlite_db new_ids w1)"
  define w3 where "w3 = snd (update_machine_id_file (ids_get new_ids ''telemetry.devDeviceId'') w2)"
  define w4 where "w4 = snd (update_system_ids new_ids w3)"
  have e: "reset_apply new_ids w = (True, say MsgRestartCursor (say MsgSuccess w4))"
    using assms by (simp add: reset_apply_def split_def Let_def w1_def w2_def w3_def w4_def)
  show "fst (reset_apply new_ids w)" by (simp add: e)
  have f1: "frame w w1 [CallUpdateCurrentFile new_ids]"
    unfolding w1_def by (rule update_current_file_frame)
  have f2: "frame w1 w2 [CallUpdateSqliteDb new_ids]"
    unfolding w2_def by (rule update_sqlite_db_frame)
  have f3: "frame w2 w3 [CallUpdateMachineIdFile (ids_get new_ids ''telemetry.devDeviceId'')]"
    unfolding w3_def by (rule update_machine_id_file_frame)
  have f4: "frame w3 w4 [CallUpdateSystemIds new_ids]"
    unfolding w4_def by (rule update_system_ids_frame)
  have "frame w w4 ([CallUpdateCurrentFile new_ids] @ [CallUpdateSqliteDb new_ids]
          @ [CallUpdateMachineIdFile (ids_get new_ids ''telemetry.devDeviceId'')]
          @ [CallUpdateSystemIds new_ids])"
    using frame_trans[OF f1 frame_trans[OF f2 frame_trans[OF f3 f4]]] .
  then show "frame w (snd (reset_apply new_ids w))
           [CallUpdateCurrentFile new_ids, CallUpdateSqliteDb new_ids,
            CallUpdateMachineIdFile (ids_get new_ids ''telemetry.devDeviceId''),
            CallUpdateSystemIds new_ids]"
    by (simp add: e say_def frame_upd)
qed

lemma check_cursor_running_printed:
  "check_cursor_running (w\<lparr>printed := P\<rparr>) = check_cursor_running w"
  by (simp add: check_cursor_running_def check_pgrep_def split: proc_result.splits)

lemma reset_machine_ids_unfold:
  "reset_machine_ids w =
     (case check_cursor_running w of
        (Some True, pid) \<Rightarrow>
          (case stdin w of
             [] \<Rightarrow> (False, w\<lparr>printed := printed w @ [MsgStarting, MsgCursorRunning pid,
                                  MsgCloseRecommended, PromptContinueAnyway, MsgProcessError]\<rparr>)
           | a # rest \<Rightarrow>
               if py_lower a \<noteq> ''y''
               then (False, w\<lparr>printed := printed w @ [MsgStarting, MsgCursorRunning pid,
                                  MsgCloseRecommended, PromptContinueAnyway,
                                  MsgOperationCancelled], stdin := rest\<rparr>)
               else reset_files (w\<lparr>printed := printed w @ [MsgStarting, MsgCursorRunning pid,
                                  MsgCloseRecommended, PromptContinueAnyway], stdin := rest\<rparr>))
      | _ \<Rightarrow> reset_files (w\<lparr>printed := printed w @ [MsgStarting]\<rparr>))"
proof -
  consider "check_cursor_running w = (Some False, None)"
    | pid where "check_cursor_running w = (Some True, pid)"
    using check_cursor_running_cases[of w] by blast
  then show ?thesis
  proof cases
    case 1
    then show ?thesis
      by (simp add: reset_machine_ids_def Let_def check_cursor_running_printed
            reset_after_check_def say_def)
  next
    case 2
    then show ?thesis
      by (simp add: reset_machine_ids_def Let_def check_cursor_running_printed
            reset_after_check_def input_line_def say_def split: list.splits)
  qed
qed

text \<open>The state in which the file check of a run starts, if the run gets there.\<close>

lemma reset_machine_ids_entry:
  "(\<exists>P S. reset_machine_ids w = reset_files (w\<lparr>printed := P, stdin := S\<rparr>))
   \<or> (\<exists>P S. reset_machine_ids w = (False, w\<lparr>printed := P, stdin := S\<rparr>))"
proof -
  have a: "w\<lparr>printed := P\<rparr> = w\<lparr>printed := P, stdin := stdin w\<rparr>" for P by simp
  consider "check_cursor_running w = (Some False, None)"
    | pid where "check_cursor_running w = (Some True, pid)"
    using check_cursor_running_cases[of w] by blast
  then show ?thesis
  proof cases
    case 1
    then have "reset_machine_ids w
                 = reset_files (w\<lparr>printed := printed w @ [MsgStarting], stdin := stdin w\<rparr>)"
      by (simp add: reset_machine_ids_unfold)
    then show ?thesis by blast
  next
    case 2
    show ?thesis
    proof (cases "stdin w")
      case Nil
      then have "reset_machine_ids w
                 = (False, w\<lparr>printed := printed w @ [MsgStarting, MsgCursorRunning pid,
                                  MsgCloseRecommended, PromptContinueAnyway, MsgProcessError],
                              stdin := stdin w\<rparr>)"
        using 2 by (simp add: reset_machine_ids_unfold)
      then show ?thesis by blast
    next
      case (Cons a rest)
      show ?thesis
      proof (cases "py_lower a = ''y''")
        case True
        then have "reset_machine_ids w
                 = reset_files (w\<lparr>printed := printed w @ [MsgStarting, MsgCursorRunning pid,
                                  MsgCloseRecommended, PromptContinueAnyway], stdin := rest\<rparr>)"
          using 2 Cons by (simp add: reset_machine_ids_unfold)
        then show ?thesis by blast
      next
        case False
        then have "reset_machine_ids w
                 = (False, w\<lparr>printed := printed w @ [MsgStarting, MsgCursorRunning pid,
                                  MsgCloseRecommended, PromptContinueAnyway,
                                  MsgOperationCancelled], stdin := rest\<rparr>)"
          using 2 Cons by (simp add: reset_machine_ids_unfold)
        then show ?thesis by blast
      qed
    qed
  qed
qed

lemma reset_confirm_True:
  assumes "reset_confirm w = (True, w')"
  shows "calls w' = calls w @
           [CallUpdateCurrentFile (fst (generate_new_ids w)),
            CallUpdateSqliteDb (fst (generate_new_ids w)),
            CallUpdateMachineIdFile (ids_get (fst (generate_new_ids w)) ''telemetry.devDeviceId''),
            CallUpdateSystemIds (fst (generate_new_ids w))]"
    and "draws w' = draws w + 5" and "urandom w' = urandom w"
proof -
  define ids where "ids = fst (generate_new_ids w)"
  have fb: "frame w (snd (backup_current_ids w)) []" using backup_current_ids_effect by blast
  obtain a rest where st: "stdin w = a # rest" "py_lower a = ''y''"
    using assms unfolding reset_confirm_unfold by (auto split: list.splits if_splits)
  define w4 where "w4 = (say PromptConfirm (snd (reset_preview w)))\<lparr>stdin := rest\<rparr>"
  have e: "reset_apply ids w4 = (True, w')"
    using assms st unfolding reset_confirm_unfold ids_def w4_def by simp
  have u: "fst (update_current_file ids w4)"
    using e reset_apply_fail[of ids w4] by (cases "fst (update_current_file ids w4)") auto
  have fa: "frame w4 w' [CallUpdateCurrentFile ids, CallUpdateSqliteDb ids,
            CallUpdateMachineIdFile (ids_get ids ''telemetry.devDeviceId''),
            CallUpdateSystemIds ids]"
    using reset_apply_ok(2)[OF u] e by simp
  have c4: "calls w4 = calls w" "draws w4 = draws w + 5" "urandom w4 = urandom w"
    unfolding w4_def reset_preview_snd say_def
    by (simp_all add: frame_fields(1)[OF fb] frame_fields(3)[OF fb])
  show "calls w' = calls w @
           [CallUpdateCurrentFile (fst (generate_new_ids w)),
            CallUpdateSqliteDb (fst (generate_new_ids w)),
            CallUpdateMachineIdFile (ids_get (fst (generate_new_ids w)) ''telemetry.devDeviceId''),
            CallUpdateSystemIds (fst (generate_new_ids w))]"
    using frame_fields(1)[OF fa] c4 by (simp add: ids_def)
  show "draws w' = draws w + 5" using frame_fields(2)[OF fa] c4 by simp
  show "urandom w' = urandom w" using frame_fields(3)[OF fa] c4 by simp
qed

lemma reset_confirm_False:
  assumes "reset_confirm w = (False, w')"
  shows "calls w' = calls w
         \<or> calls w' = calls w @ [CallUpdateCurrentFile (fst (generate_new_ids w))]"
proof -
  define ids where "ids = fst (generate_new_ids w)"
  have fb: "frame w (snd (backup_current_ids w)) []" using backup_current_ids_effect by blast
  have c3: "calls (snd (reset_preview w)) = calls w"
    unfolding reset_preview_snd by (simp add: frame_fields(1)[OF fb])
  show ?thesis
  proof (cases "stdin w")
    case Nil
    then show ?thesis using assms c3 unfolding reset_confirm_unfold by (auto simp: say_def)
  next
    case (Cons a rest)
    define w4 where "w4 = (say PromptConfirm (snd (reset_preview w)))\<lparr>stdin := rest\<rparr>"
    have c4: "calls w4 = calls w" unfolding w4_def say_def using c3 by simp
    show ?thesis
    proof (cases "py_lower a = ''y''")
      case False
      then show ?thesis
        using assms Cons c3 unfolding reset_confirm_unfold
        by (auto simp: say_def)
    next
      case True
      then have e: "reset_apply ids w4 = (False, w')"
        using assms Cons unfolding reset_confirm_unfold ids_def w4_def by simp
      have u: "\<not> fst (update_current_file ids w4)"
        using e reset_apply_ok(1)[of ids w4] by auto
      have "w' = snd (update_current_file ids w4)"
        using reset_apply_fail[OF u] e by simp
      then have "calls w' = calls w4 @ [CallUpdateCurrentFile ids]"
        using frame_fields(1)[OF update_current_file_frame[of w4 ids]] by simp
      then show ?thesis using c4 by (simp add: ids_def)
    qed
  qed
qed

lemma reset_files_cases:
  "reset_files w = reset_confirm w
   \<or> reset_files w = (False, say (MsgExpectedPaths (db_path w) (sqlite_path w)
                                   (get_cursor_machine_id_path w)) (say MsgFilesNotFound w))"
  by (simp add: reset_files_def Let_def)

section \<open>A decline\<close>

lemma entry_paths:
  "path_join (w\<lparr>printed := P, stdin := S\<rparr>) = path_join w"
  "path_dirname (w\<lparr>printed := P, stdin := S\<rparr>) = path_dirname w"
  "get_cursor_machine_id_path (w\<lparr>printed := P, stdin := S\<rparr>) = get_cursor_machine_id_path w"
  using path_join_platform[of "w\<lparr>printed := P, stdin := S\<rparr>" w]
    path_dirname_platform[of "w\<lparr>printed := P, stdin := S\<rparr>" w]
    machine_id_path_eq[of "w\<lparr>printed := P, stdin := S\<rparr>" w]
  by simp_all

lemma reset_confirm_decline:
  assumes "stdin w = a # rest" and "py_lower a \<noteq> ''y''"
  shows "reset_confirm w =
     (False, (snd (backup_current_ids w))
        \<lparr>printed := printed (snd (backup_current_ids w))
                     @ [MsgGeneratingNewIds, MsgIdsToReset]
                     @ map (\<lambda>kv. MsgIdPreview (fst kv) (snd kv)) (fst (generate_new_ids w))
                     @ [PromptConfirm, MsgOperationCancelled],
         draws := draws w + 5, stdin := rest\<rparr>)"
  using assms unfolding reset_confirm_unfold reset_preview_snd by (simp add: say_def)

lemma reset_confirm_accept:
  assumes "stdin w = a # rest" and "py_lower a = ''y''"
  shows "reset_confirm w =
     reset_apply (fst (generate_new_ids w))
       ((snd (backup_current_ids w))
          \<lparr>draws := draws w + 5,
           printed := printed (snd (backup_current_ids w))
                     @ [MsgGeneratingNewIds, MsgIdsToReset]
                     @ map (\<lambda>kv. MsgIdPreview (fst kv) (snd kv)) (fst (generate_new_ids w))
                     @ [PromptConfirm],
           stdin := rest\<rparr>)"
  using assms unfolding reset_confirm_unfold reset_preview_snd by (simp add: say_def)

text \<open>A decline at the confirmation prompt, from the state in which the file check starts.\<close>

lemma reset_files_decline:
  assumes "path_exists w (db_path w) \<or> path_exists w (sqlite_path w)
           \<or> path_exists w (get_cursor_machine_id_path w)"
    and "stdin w = a # rest" and "py_lower a \<noteq> ''y''"
    and "reset_files w = (r, w')"
  shows "\<not> r" and "calls w' = calls w" and "reg_values w' = reg_values w"
    and "plist_uuid w' = plist_uuid w" and "last (printed w') = MsgOperationCancelled"
    and "\<forall>p. p \<noteq> sqlite_path w
          \<and> p \<noteq> path_join w (path_dirname w (db_path w))
                  (''storage.json.bak.'' @ clock w (ticks w))
          \<longrightarrow> fs w' p = fs w p"
    and "sqlite_path w \<noteq> path_join w (path_dirname w (db_path w))
                          (''storage.json.bak.'' @ clock w (ticks w))
        \<longrightarrow> fs w' (sqlite_path w) = fs w (sqlite_path w)
            \<or> (fs w (sqlite_path w) \<in> {Some (SqliteDb None), Some (TextFile [])}
                \<and> fs w' (sqlite_path w) = Some (SqliteDb (Some [])))"
proof -
  have "reset_files w = reset_confirm w"
    using assms(1) by (auto simp: reset_files_def Let_def)
  then have e: "r = False" "w' = (snd (backup_current_ids w))
        \<lparr>printed := printed (snd (backup_current_ids w))
                     @ [MsgGeneratingNewIds, MsgIdsToReset]
                     @ map (\<lambda>kv. MsgIdPreview (fst kv) (snd kv)) (fst (generate_new_ids w))
                     @ [PromptConfirm, MsgOperationCancelled],
         draws := draws w + 5, stdin := rest\<rparr>"
    using assms(4) reset_confirm_decline[OF assms(2,3)] by simp_all
  note b = backup_current_ids_effect[of w]
  have f: "frame w (snd (backup_current_ids w)) []" using b by blast
  show "\<not> r" by (simp add: e)
  show "calls w' = calls w" unfolding e by (simp add: frame_fields(1)[OF f])
  show "reg_values w' = reg_values w" "plist_uuid w' = plist_uuid w"
    unfolding e using b by simp_all
  show "last (printed w') = MsgOperationCancelled" unfolding e by simp
  show "\<forall>p. p \<noteq> sqlite_path w
          \<and> p \<noteq> path_join w (path_dirname w (db_path w))
                  (''storage.json.bak.'' @ clock w (ticks w))
          \<longrightarrow> fs w' p = fs w p"
    unfolding e using b by simp
  show "sqlite_path w \<noteq> path_join w (path_dirname w (db_path w))
                          (''storage.json.bak.'' @ clock w (ticks w))
        \<longrightarrow> fs w' (sqlite_path w) = fs w (sqlite_path w)
            \<or> (fs w (sqlite_path w) \<in> {Some (SqliteDb None), Some (TextFile [])}
                \<and> fs w' (sqlite_path w) = Some (SqliteDb (Some [])))"
    unfolding e using b by simp
qed

text \<open>
  C7, as amended. A run in which the operator declines, at the prompt after "Cursor is
  running" or at the confirmation prompt, returns \<open>False\<close> right after "operation
  cancelled", and no mutator was called: the registry values and the property list are what
  they were, and so is every file other than the backup file
  \<^verbatim>\<open>storage.json.bak.<timestamp>\<close> and state.vscdb. state.vscdb is what it was, unless it
  had no \<^verbatim>\<open>ItemTable\<close>: then \<^verbatim>\<open>backup_current_ids\<close>, which runs before the confirmation
  prompt, has created an empty one. A decline at the first prompt changes nothing but the
  output and the input read.
\<close>

theorem decline_leaves_backends:
  assumes "reset_machine_ids w = (r, w')"
    and "(fst (check_cursor_running w) = Some True
            \<and> (\<exists>a rest. stdin w = a # rest \<and> py_lower a \<noteq> ''y''))
         \<or> ((path_exists w (db_path w) \<or> path_exists w (sqlite_path w)
               \<or> path_exists w (get_cursor_machine_id_path w))
             \<and> ((fst (check_cursor_running w) = Some False
                    \<and> (\<exists>a rest. stdin w = a # rest \<and> py_lower a \<noteq> ''y''))
                 \<or> (fst (check_cursor_running w) = Some True
                    \<and> (\<exists>a b rest. stdin w = a # b # rest \<and> py_lower a = ''y''
                          \<and> py_lower b \<noteq> ''y''))))"
  shows "\<not> r \<and> last (printed w') = MsgOperationCancelled
    \<and> calls w' = calls w \<and> reg_values w' = reg_values w \<and> plist_uuid w' = plist_uuid w
    \<and> (\<forall>p. p \<noteq> sqlite_path w
          \<and> p \<noteq> path_join w (path_dirname w (db_path w))
                  (''storage.json.bak.'' @ clock w (ticks w))
          \<longrightarrow> fs w' p = fs w p)
    \<and> (sqlite_path w \<noteq> path_join w (path_dirname w (db_path w))
                          (''storage.json.bak.'' @ clock w (ticks w))
        \<longrightarrow> fs w' (sqlite_path w) = fs w (sqlite_path w)
            \<or> (fs w (sqlite_path w) \<in> {Some (SqliteDb None), Some (TextFile [])}
                \<and> fs w' (sqlite_path w) = Some (SqliteDb (Some []))))
    \<and> (fst (check_cursor_running w) = Some True
          \<and> (\<exists>a rest. stdin w = a # rest \<and> py_lower a \<noteq> ''y'')
        \<longrightarrow> w'\<lparr>printed := printed w, stdin := stdin w\<rparr> = w)"
proof -
  have confirm: "\<not> r \<and> last (printed w') = MsgOperationCancelled
    \<and> calls w' = calls w \<and> reg_values w' = reg_values w \<and> plist_uuid w' = plist_uuid w
    \<and> (\<forall>p. p \<noteq> sqlite_path w
          \<and> p \<noteq> path_join w (path_dirname w (db_path w))
                  (''storage.json.bak.'' @ clock w (ticks w))
          \<longrightarrow> fs w' p = fs w p)
    \<and> (sqlite_path w \<noteq> path_join w (path_dirname w (db_path w))
                          (''storage.json.bak.'' @ clock w (ticks w))
        \<longrightarrow> fs w' (sqlite_path w) = fs w (sqlite_path w)
            \<or> (fs w (sqlite_path w) \<in> {Some (SqliteDb None), Some (TextFile [])}
                \<and> fs w' (sqlite_path w) = Some (SqliteDb (Some []))))"
    if ex: "path_exists w (db_path w) \<or> path_exists w (sqlite_path w)
               \<or> path_exists w (get_cursor_machine_id_path w)"
      and e: "reset_machine_ids w = reset_files (w\<lparr>printed := P, stdin := b # rest\<rparr>)"
      and b: "py_lower b \<noteq> ''y''" for P b rest
  proof -
    define we where "we = w\<lparr>printed := P, stdin := b # rest\<rparr>"
    have p: "path_join we = path_join w" "path_dirname we = path_dirname w"
      "get_cursor_machine_id_path we = get_cursor_machine_id_path w"
      unfolding we_def by (rule entry_paths)+
    have q: "db_path we = db_path w" "sqlite_path we = sqlite_path w" "fs we = fs w"
      "calls we = calls w" "reg_values we = reg_values w" "plist_uuid we = plist_uuid w"
      "clock we = clock w" "ticks we = ticks w" "stdin we = b # rest"
      by (simp_all add: we_def)
    have ex': "path_exists we (db_path we) \<or> path_exists we (sqlite_path we)
               \<or> path_exists we (get_cursor_machine_id_path we)"
      using ex unfolding p q path_exists_def q .
    have r: "reset_files we = (r, w')" using e assms(1) by (simp add: we_def)
    note d = reset_files_decline[OF ex' q(9) b r]
    show ?thesis using d unfolding p q by blast
  qed
  consider (quiet) "check_cursor_running w = (Some False, None)"
    | (running) pid where "check_cursor_running w = (Some True, pid)"
    using check_cursor_running_cases[of w] by blast
  then show ?thesis
  proof cases
    case quiet
    with assms(2) obtain a rest where
      ex: "path_exists w (db_path w) \<or> path_exists w (sqlite_path w)
               \<or> path_exists w (get_cursor_machine_id_path w)"
      and st: "stdin w = a # rest" "py_lower a \<noteq> ''y''" by auto
    have "w\<lparr>printed := printed w @ [MsgStarting]\<rparr>
            = w\<lparr>printed := printed w @ [MsgStarting], stdin := a # rest\<rparr>"
      using st(1) by simp
    then have "reset_machine_ids w = reset_files (w\<lparr>printed := printed w @ [MsgStarting], stdin := a # rest\<rparr>)"
      using quiet by (simp add: reset_machine_ids_unfold)
    from confirm[OF ex this st(2)] quiet show ?thesis by simp
  next
    case running
    show ?thesis
    proof (cases "\<exists>a rest. stdin w = a # rest \<and> py_lower a \<noteq> ''y''")
      case True
      then obtain a rest where st: "stdin w = a # rest" "py_lower a \<noteq> ''y''" by blast
      have "reset_machine_ids w = (False, w\<lparr>printed := printed w @ [MsgStarting, MsgCursorRunning pid,
                                  MsgCloseRecommended, PromptContinueAnyway,
                                  MsgOperationCancelled], stdin := rest\<rparr>)"
        using running st by (simp add: reset_machine_ids_unfold)
      with assms(1) have "r = False" "w' = w\<lparr>printed := printed w @ [MsgStarting, MsgCursorRunning pid,
                                  MsgCloseRecommended, PromptContinueAnyway,
                                  MsgOperationCancelled], stdin := rest\<rparr>" by simp_all
      then show ?thesis by simp
    next
      case False
      with assms(2) running obtain a b rest where
        ex: "path_exists w (db_path w) \<or> path_exists w (sqlite_path w)
               \<or> path_exists w (get_cursor_machine_id_path w)"
        and st: "stdin w = a # b # rest" "py_lower a = ''y''" "py_lower b \<noteq> ''y''" by auto
      have "reset_machine_ids w = reset_files (w\<lparr>printed := printed w @ [MsgStarting, MsgCursorRunning pid,
                                  MsgCloseRecommended, PromptContinueAnyway], stdin := b # rest\<rparr>)"
        using running st by (simp add: reset_machine_ids_unfold)
      from confirm[OF ex this st(3)] False show ?thesis by blast
    qed
  qed
qed

text \<open>
  Two runs: Cursor runs with pid 4242 and the operator answers \<^verbatim>\<open>n\<close>; Cursor does not
  run, storage.json exists and the operator answers \<^verbatim>\<open>N\<close> to the confirmation.
\<close>

theorem decline_leaves_backends_witness:
  "check_cursor_running world_running_decline = (Some True, Some 4242)
   \<and> stdin world_running_decline = [''n''] \<and> py_lower ''n'' \<noteq> ''y''
   \<and> \<not> fst (reset_machine_ids world_running_decline)
   \<and> fs (snd (reset_machine_ids world_running_decline)) = fs world_running_decline
   \<and> calls (snd (reset_machine_ids world_running_decline)) = []
   \<and> check_cursor_running world_confirm_decline = (Some False, None)
   \<and> path_exists world_confirm_decline (db_path world_confirm_decline)
   \<and> stdin world_confirm_decline = [''N''] \<and> py_lower ''N'' \<noteq> ''y''
   \<and> \<not> fst (reset_machine_ids world_confirm_decline)
   \<and> last (printed (snd (reset_machine_ids world_confirm_decline))) = MsgOperationCancelled
   \<and> calls (snd (reset_machine_ids world_confirm_decline)) = []
   \<and> fs (snd (reset_machine_ids world_confirm_decline)) ''/c/storage.json''
       = Some (JsonDoc (PDict [(''unrelated.key'', PStr ''x'')]))"
proof -
  let ?A = world_running_decline and ?B = world_confirm_decline
  have ca: "check_cursor_running ?A = (Some True, Some 4242)" by code_simp
  have cb: "check_cursor_running ?B = (Some False, None)" by code_simp
  have sa: "stdin ?A = [''n'']" and sb: "stdin ?B = [''N'']"
    by (simp_all add: world_running_decline_def world_confirm_decline_def)
  have na: "py_lower ''n'' \<noteq> ''y''" and nb: "py_lower ''N'' \<noteq> ''y''" by code_simp+
  have eb: "path_exists ?B (db_path ?B)"
    by (simp add: path_exists_def world_confirm_decline_def world_json_def world0_def)
  have ha: "(fst (check_cursor_running ?A) = Some True
            \<and> (\<exists>a rest. stdin ?A = a # rest \<and> py_lower a \<noteq> ''y''))
         \<or> ((path_exists ?A (db_path ?A) \<or> path_exists ?A (sqlite_path ?A)
               \<or> path_exists ?A (get_cursor_machine_id_path ?A))
             \<and> ((fst (check_cursor_running ?A) = Some False
                    \<and> (\<exists>a rest. stdin ?A = a # rest \<and> py_lower a \<noteq> ''y''))
                 \<or> (fst (check_cursor_running ?A) = Some True
                    \<and> (\<exists>a b rest. stdin ?A = a # b # rest \<and> py_lower a = ''y''
                          \<and> py_lower b \<noteq> ''y''))))"
    using ca sa na by simp
  have hb: "(fst (check_cursor_running ?B) = Some True
            \<and> (\<exists>a rest. stdin ?B = a # rest \<and> py_lower a \<noteq> ''y''))
         \<or> ((path_exists ?B (db_path ?B) \<or> path_exists ?B (sqlite_path ?B)
               \<or> path_exists ?B (get_cursor_machine_id_path ?B))
             \<and> ((fst (check_cursor_running ?B) = Some False
                    \<and> (\<exists>a rest. stdin ?B = a # rest \<and> py_lower a \<noteq> ''y''))
                 \<or> (fst (check_cursor_running ?B) = Some True
                    \<and> (\<exists>a b rest. stdin ?B = a # b # rest \<and> py_lower a = ''y''
                          \<and> py_lower b \<noteq> ''y''))))"
    using cb sb nb eb by simp
  have ra: "reset_machine_ids ?A = (fst (reset_machine_ids ?A), snd (reset_machine_ids ?A))"
    and rb: "reset_machine_ids ?B = (fst (reset_machine_ids ?B), snd (reset_machine_ids ?B))"
    by simp_all
  note ta = decline_leaves_backends[OF ra ha] and tb = decline_leaves_backends[OF rb hb]
  have a1: "\<not> fst (reset_machine_ids ?A)" and a2: "calls (snd (reset_machine_ids ?A)) = calls ?A"
    and a3: "(snd (reset_machine_ids ?A))\<lparr>printed := printed ?A, stdin := stdin ?A\<rparr> = ?A"
    using ta ca sa na by simp_all
  have "fs ((snd (reset_machine_ids ?A))\<lparr>printed := printed ?A, stdin := stdin ?A\<rparr>) = fs ?A"
    by (simp only: a3)
  then have a4: "fs (snd (reset_machine_ids ?A)) = fs ?A" by simp
  have b1: "\<not> fst (reset_machine_ids ?B)"
    and b2: "last (printed (snd (reset_machine_ids ?B))) = MsgOperationCancelled"
    and b3: "calls (snd (reset_machine_ids ?B)) = calls ?B"
    and b4: "\<forall>p. p \<noteq> sqlite_path ?B
          \<and> p \<noteq> path_join ?B (path_dirname ?B (db_path ?B))
                  (''storage.json.bak.'' @ clock ?B (ticks ?B))
          \<longrightarrow> fs (snd (reset_machine_ids ?B)) p = fs ?B p"
    using tb by simp_all
  have p1: "''/c/storage.json'' \<noteq> sqlite_path ?B" by code_simp
  have p2: "''/c/storage.json'' \<noteq> path_join ?B (path_dirname ?B (db_path ?B))
                  (''storage.json.bak.'' @ clock ?B (ticks ?B))" by code_simp
  have b5: "fs (snd (reset_machine_ids ?B)) ''/c/storage.json'' = fs ?B ''/c/storage.json''"
    using b4 p1 p2 by blast
  have c0: "calls ?A = []" "calls ?B = []"
    "fs ?B ''/c/storage.json'' = Some (JsonDoc (PDict [(''unrelated.key'', PStr ''x'')]))"
    by (simp_all add: world_running_decline_def world_confirm_decline_def world_json_def world0_def)
  show ?thesis
    using ca sa na a1 a4 a2 cb eb sb nb b1 b2 b3 b5 unfolding c0 by simp
qed

text \<open>
  C7 as stated fails: state.vscdb is a database without \<^verbatim>\<open>ItemTable\<close>, the operator
  declines the reset, and the database has the table afterwards.
\<close>

theorem decline_creates_table_counterexample:
  "fs world_no_table ''/c/state.vscdb'' = Some (SqliteDb None)
   \<and> stdin world_no_table = [''n'']
   \<and> fst (reset_machine_ids world_no_table) = False
   \<and> last (printed (snd (reset_machine_ids world_no_table))) = MsgOperationCancelled
   \<and> fs (snd (reset_machine_ids world_no_table)) ''/c/state.vscdb'' = Some (SqliteDb (Some []))"
proof -
  let ?W = world_no_table
  define W1 where "W1 = ?W\<lparr>printed := printed ?W @ [MsgStarting]\<rparr>"
  have c: "check_cursor_running ?W = (Some False, None)" by code_simp
  have s: "stdin W1 = [''n'']" by (simp add: W1_def world_no_table_def)
  have n: "py_lower ''n'' \<noteq> ''y''" by code_simp
  have f0: "fs ?W ''/c/state.vscdb'' = Some (SqliteDb None)" "stdin ?W = [''n'']"
    by (simp_all add: world_no_table_def)
  have e1: "reset_machine_ids ?W = reset_files W1"
    using c by (simp add: reset_machine_ids_unfold W1_def)
  have e2: "reset_files W1 = reset_confirm W1"
    by (simp add: reset_files_def Let_def path_exists_def W1_def world_no_table_def world0_def)
  have b: "fs (snd (backup_current_ids W1)) ''/c/state.vscdb'' = Some (SqliteDb (Some []))"
    unfolding W1_def by code_simp
  show ?thesis
    unfolding e1 e2 reset_confirm_decline[OF s n] using f0 b by simp
qed

section \<open>A failure of update\_current\_file\<close>

lemma update_current_file_absent:
  "\<not> path_exists w (db_path w) \<Longrightarrow>
   update_current_file new_ids w
     = (False, say (MsgCurrentFileNotFound (db_path w))
                 (record_call (CallUpdateCurrentFile new_ids) w))"
  by (simp add: update_current_file_def Let_def record_call_def path_exists_def)

lemma update_current_file_copy_fails:
  "fs w (db_path w) = Some (JsonDoc v) \<Longrightarrow> \<not> unreadable w (db_path w)
   \<Longrightarrow> unwritable w (db_path w @ ''.restore_bak.'' @ clock w (ticks w))
   \<Longrightarrow> update_current_file new_ids w
        = (False, say MsgUpdateFailed
                    ((record_call (CallUpdateCurrentFile new_ids) w)\<lparr>ticks := Suc (ticks w)\<rparr>))"
  by (simp add: update_current_file_def Let_def record_call_def path_exists_def read_json_def
        now_timestamp_def copy2_def say_def)

lemma update_current_file_failure:
  assumes "\<not> fst (update_current_file new_ids w)"
  shows "last (printed (snd (update_current_file new_ids w)))
           \<in> {MsgCurrentFileNotFound (db_path w), MsgUpdateFailed}"
  using assms
  unfolding update_current_file_def Let_def split_def record_call_def say_def path_exists_def
    read_json_def copy2_def write_json_def now_timestamp_def
  by (auto split: option.splits if_splits pyval.splits content.splits)

lemma update_current_file_other_files:
  "p \<noteq> db_path w \<Longrightarrow> p \<noteq> db_path w @ ''.restore_bak.'' @ clock w (ticks w)
   \<Longrightarrow> fs (snd (update_current_file new_ids w)) p = fs w p"
  unfolding update_current_file_def Let_def split_def io_defs
  by (simp split: option.splits content.splits pyval.splits)

lemma reset_machine_ids_False_calls:
  assumes "\<not> fst (reset_machine_ids w)"
  shows "calls (snd (reset_machine_ids w)) = calls w
         \<or> calls (snd (reset_machine_ids w))
             = calls w @ [CallUpdateCurrentFile (fst (generate_new_ids w))]"
proof -
  from reset_machine_ids_entry[of w] consider
    (files) P S where "reset_machine_ids w = reset_files (w\<lparr>printed := P, stdin := S\<rparr>)"
    | (stop) P S where "reset_machine_ids w = (False, w\<lparr>printed := P, stdin := S\<rparr>)"
    by blast
  then show ?thesis
  proof cases
    case stop
    then show ?thesis by simp
  next
    case files
    define we where "we = w\<lparr>printed := P, stdin := S\<rparr>"
    have g: "fst (generate_new_ids we) = fst (generate_new_ids w)"
      by (rule generate_new_ids_source) (simp_all add: we_def)
    have q: "calls we = calls w" by (simp add: we_def)
    from reset_files_cases[of we] show ?thesis
    proof
      assume "reset_files we = reset_confirm we"
      then have "reset_confirm we = (False, snd (reset_machine_ids w))"
        using files assms unfolding we_def[symmetric] by (simp add: prod_eq_iff)
      from reset_confirm_False[OF this] show ?thesis unfolding g q .
    next
      assume "reset_files we = (False, say (MsgExpectedPaths (db_path we) (sqlite_path we)
                                   (get_cursor_machine_id_path we)) (say MsgFilesNotFound we))"
      then show ?thesis using files unfolding we_def[symmetric] by (simp add: say_def q)
    qed
  qed
qed

text \<open>
  C2, as amended. When \<^verbatim>\<open>update_current_file\<close> fails, the run returns \<open>False\<close> in the
  state that call left: the only mutator called is \<^verbatim>\<open>update_current_file\<close>, the last line
  printed is its own error, the registry values, the property list and every file other
  than storage.json and its \<^verbatim>\<open>.restore_bak\<close> copy are untouched. A run that returns
  \<open>False\<close> has called no mutator, or \<^verbatim>\<open>update_current_file\<close> alone with the generated
  set. Nothing is reported about the other backends.
\<close>

theorem canonical_failure_stops_run:
  "(\<not> fst (update_current_file new_ids w) \<longrightarrow>
       reset_apply new_ids w = (False, snd (update_current_file new_ids w))
     \<and> calls (snd (reset_apply new_ids w)) = calls w @ [CallUpdateCurrentFile new_ids]
     \<and> last (printed (snd (reset_apply new_ids w)))
          \<in> {MsgCurrentFileNotFound (db_path w), MsgUpdateFailed}
     \<and> reg_values (snd (reset_apply new_ids w)) = reg_values w
     \<and> plist_uuid (snd (reset_apply new_ids w)) = plist_uuid w
     \<and> (\<forall>p. p \<noteq> db_path w \<and> p \<noteq> db_path w @ ''.restore_bak.'' @ clock w (ticks w)
            \<longrightarrow> fs (snd (reset_apply new_ids w)) p = fs w p))
   \<and> (\<not> fst (reset_machine_ids w) \<longrightarrow>
        calls (snd (reset_machine_ids w)) = calls w
        \<or> calls (snd (reset_machine_ids w))
            = calls w @ [CallUpdateCurrentFile (fst (generate_new_ids w))])"
proof -
  have a: "reset_apply new_ids w = (False, snd (update_current_file new_ids w))
     \<and> calls (snd (reset_apply new_ids w)) = calls w @ [CallUpdateCurrentFile new_ids]
     \<and> last (printed (snd (reset_apply new_ids w)))
          \<in> {MsgCurrentFileNotFound (db_path w), MsgUpdateFailed}
     \<and> reg_values (snd (reset_apply new_ids w)) = reg_values w
     \<and> plist_uuid (snd (reset_apply new_ids w)) = plist_uuid w
     \<and> (\<forall>p. p \<noteq> db_path w \<and> p \<noteq> db_path w @ ''.restore_bak.'' @ clock w (ticks w)
            \<longrightarrow> fs (snd (reset_apply new_ids w)) p = fs w p)"
    if u: "\<not> fst (update_current_file new_ids w)"
    unfolding reset_apply_fail[OF u]
    using frame_fields(1)[OF update_current_file_frame[of w new_ids]]
      update_current_file_failure[OF u] update_current_file_system(1,2)[of new_ids w]
      update_current_file_other_files[of _ w new_ids]
    by simp
  show ?thesis using a reset_machine_ids_False_calls[of w] by blast
qed

text \<open>A run in which Cursor is not running, a file is there and the operator confirms.\<close>

lemma accepted_run:
  assumes "check_cursor_running w = (Some False, None)"
    and "path_exists w (db_path w) \<or> path_exists w (sqlite_path w)
         \<or> path_exists w (get_cursor_machine_id_path w)"
    and "stdin w = a # rest" and "py_lower a = ''y''"
  shows "reset_machine_ids w =
     reset_apply (fst (generate_new_ids w))
       ((snd (backup_current_ids (w\<lparr>printed := printed w @ [MsgStarting]\<rparr>)))
          \<lparr>draws := draws w + 5,
           printed := printed (snd (backup_current_ids (w\<lparr>printed := printed w @ [MsgStarting]\<rparr>)))
                     @ [MsgGeneratingNewIds, MsgIdsToReset]
                     @ map (\<lambda>kv. MsgIdPreview (fst kv) (snd kv)) (fst (generate_new_ids w))
                     @ [PromptConfirm],
           stdin := rest\<rparr>)"
proof -
  define w1 where "w1 = w\<lparr>printed := printed w @ [MsgStarting]\<rparr>"
  have w1: "w1 = w\<lparr>printed := printed w @ [MsgStarting], stdin := stdin w\<rparr>"
    by (simp add: w1_def)
  have m: "get_cursor_machine_id_path w1 = get_cursor_machine_id_path w"
    unfolding w1 by (rule entry_paths)
  have g: "fst (generate_new_ids w1) = fst (generate_new_ids w)"
    by (rule generate_new_ids_source) (simp_all add: w1_def)
  have e1: "reset_machine_ids w = reset_files w1"
    using assms(1) by (simp add: reset_machine_ids_unfold w1_def)
  have "path_exists w1 (db_path w1) \<or> path_exists w1 (sqlite_path w1)
         \<or> path_exists w1 (get_cursor_machine_id_path w1)"
    using assms(2) unfolding m by (simp add: w1_def path_exists_def)
  then have e2: "reset_files w1 = reset_confirm w1"
    by (auto simp: reset_files_def Let_def)
  have s: "stdin w1 = a # rest" using assms(3) by (simp add: w1_def)
  have d: "draws w1 = draws w" by (simp add: w1_def)
  have "reset_machine_ids w = reset_confirm w1" using e1 e2 by simp
  also note reset_confirm_accept[OF s assms(4)]
  finally show ?thesis unfolding g d unfolding w1_def .
qed

lemma world_sqlite_only_run:
  "fst (reset_machine_ids world_sqlite_only) = False"
  "last (printed (snd (reset_machine_ids world_sqlite_only)))
     = MsgCurrentFileNotFound ''/c/storage.json''"
  "calls (snd (reset_machine_ids world_sqlite_only))
     = [CallUpdateCurrentFile (fst (generate_new_ids world_sqlite_only))]"
  "fs (snd (reset_machine_ids world_sqlite_only)) ''/c/state.vscdb'' = Some (SqliteDb (Some []))"
proof -
  let ?W = world_sqlite_only
  define B where "B = snd (backup_current_ids (?W\<lparr>printed := printed ?W @ [MsgStarting]\<rparr>))"
  define ids where "ids = fst (generate_new_ids ?W)"
  define W4 where "W4 = B\<lparr>draws := draws ?W + 5,
           printed := printed B @ [MsgGeneratingNewIds, MsgIdsToReset]
                     @ map (\<lambda>kv. MsgIdPreview (fst kv) (snd kv)) ids @ [PromptConfirm],
           stdin := []\<rparr>"
  have c: "check_cursor_running ?W = (Some False, None)" by code_simp
  have x: "path_exists ?W (db_path ?W) \<or> path_exists ?W (sqlite_path ?W)
         \<or> path_exists ?W (get_cursor_machine_id_path ?W)"
    by (simp add: path_exists_def world_sqlite_only_def world0_def)
  have s: "stdin ?W = ''y'' # []" by (simp add: world_sqlite_only_def)
  have y: "py_lower ''y'' = ''y''" by code_simp
  have run: "reset_machine_ids ?W = reset_apply ids W4"
    unfolding accepted_run[OF c x s y] W4_def B_def ids_def ..
  have fb: "frame (?W\<lparr>printed := printed ?W @ [MsgStarting]\<rparr>) B []"
    unfolding B_def using backup_current_ids_effect by blast
  have b1: "fs B ''/c/storage.json'' = None" unfolding B_def by code_simp
  have b2: "fs B ''/c/state.vscdb'' = Some (SqliteDb (Some []))" unfolding B_def by code_simp
  have b3: "db_path B = ''/c/storage.json''" "calls B = []"
    using frame_fields(5)[OF fb] frame_fields(1)[OF fb]
    by (simp_all add: world_sqlite_only_def world0_def)
  have a: "\<not> path_exists W4 (db_path W4)"
    by (simp add: path_exists_def W4_def b1 b3)
  have u: "update_current_file ids W4
             = (False, say (MsgCurrentFileNotFound (db_path W4))
                         (record_call (CallUpdateCurrentFile ids) W4))"
    by (rule update_current_file_absent[OF a])
  have r: "reset_apply ids W4 = (False, say (MsgCurrentFileNotFound (db_path W4))
                         (record_call (CallUpdateCurrentFile ids) W4))"
    using reset_apply_fail[of ids W4] u by simp
  have fin: "reset_machine_ids ?W = (False, say (MsgCurrentFileNotFound (db_path W4))
                         (record_call (CallUpdateCurrentFile ids) W4))"
    using run r by simp
  show "fst (reset_machine_ids ?W) = False" unfolding fin by simp
  show "last (printed (snd (reset_machine_ids ?W))) = MsgCurrentFileNotFound ''/c/storage.json''"
    unfolding fin by (simp add: say_def W4_def b3)
  show "calls (snd (reset_machine_ids ?W)) = [CallUpdateCurrentFile (fst (generate_new_ids ?W))]"
    unfolding fin by (simp add: say_def record_call_def W4_def b3 ids_def)
  show "fs (snd (reset_machine_ids ?W)) ''/c/state.vscdb'' = Some (SqliteDb (Some []))"
    unfolding fin by (simp add: say_def record_call_def W4_def b2)
qed


lemma world_canonical_fails_run:
  "fst (reset_machine_ids world_canonical_fails) = False"
  "printed (snd (reset_machine_ids world_canonical_fails))
     = [MsgStarting, MsgBackingUpCurrent, MsgBackupSaved ''/c/storage.json.bak.20240101_000000'',
        MsgGeneratingNewIds, MsgIdsToReset]
       @ map (\<lambda>kv. MsgIdPreview (fst kv) (snd kv)) (fst (generate_new_ids world_canonical_fails))
       @ [PromptConfirm, MsgUpdateFailed]"
  "calls (snd (reset_machine_ids world_canonical_fails))
     = [CallUpdateCurrentFile (fst (generate_new_ids world_canonical_fails))]"
  "fs (snd (reset_machine_ids world_canonical_fails)) ''/c/state.vscdb'' = Some (SqliteDb (Some []))"
proof -
  let ?W = world_canonical_fails
  define B where "B = snd (backup_current_ids (?W\<lparr>printed := printed ?W @ [MsgStarting]\<rparr>))"
  define ids where "ids = fst (generate_new_ids ?W)"
  define W4 where "W4 = B\<lparr>draws := draws ?W + 5,
           printed := printed B @ [MsgGeneratingNewIds, MsgIdsToReset]
                     @ map (\<lambda>kv. MsgIdPreview (fst kv) (snd kv)) ids @ [PromptConfirm],
           stdin := []\<rparr>"
  have c: "check_cursor_running ?W = (Some False, None)" by code_simp
  have x: "path_exists ?W (db_path ?W) \<or> path_exists ?W (sqlite_path ?W)
         \<or> path_exists ?W (get_cursor_machine_id_path ?W)"
    by (simp add: path_exists_def world_canonical_fails_def world0_def)
  have s: "stdin ?W = ''y'' # []" by (simp add: world_canonical_fails_def)
  have y: "py_lower ''y'' = ''y''" by code_simp
  have run: "reset_machine_ids ?W = reset_apply ids W4"
    unfolding accepted_run[OF c x s y] W4_def B_def ids_def ..
  have fb: "frame (?W\<lparr>printed := printed ?W @ [MsgStarting]\<rparr>) B []"
    unfolding B_def using backup_current_ids_effect by blast
  have b1: "fs B ''/c/storage.json'' = Some (JsonDoc (PDict [(''unrelated.key'', PStr ''x'')]))"
    unfolding B_def by code_simp
  have b2: "fs B ''/c/state.vscdb'' = Some (SqliteDb (Some []))" unfolding B_def by code_simp
  have b3: "db_path B = ''/c/storage.json''" "calls B = []"
    "clock B = (\<lambda>n. ''20240101_000000'')" "unreadable B = (\<lambda>p. False)"
    "unwritable B = (\<lambda>p. p = ''/c/storage.json.restore_bak.20240101_000000'')"
    using frame_fields(5)[OF fb] frame_fields(1)[OF fb] frame_fields(10)[OF fb]
      frame_fields(11)[OF fb] frame_fields(12)[OF fb]
    by (simp_all add: world_canonical_fails_def world0_def)
  have b4: "printed B = [MsgStarting, MsgBackingUpCurrent,
                         MsgBackupSaved ''/c/storage.json.bak.20240101_000000'']"
    unfolding B_def by code_simp
  have u: "update_current_file ids W4
             = (False, say MsgUpdateFailed
                    ((record_call (CallUpdateCurrentFile ids) W4)\<lparr>ticks := Suc (ticks W4)\<rparr>))"
    by (rule update_current_file_copy_fails[where v = "PDict [(''unrelated.key'', PStr ''x'')]"])
       (simp_all add: W4_def b1 b3)
  have r: "reset_apply ids W4 = (False, say MsgUpdateFailed
                    ((record_call (CallUpdateCurrentFile ids) W4)\<lparr>ticks := Suc (ticks W4)\<rparr>))"
    using reset_apply_fail[of ids W4] u by simp
  have fin: "reset_machine_ids ?W = (False, say MsgUpdateFailed
                    ((record_call (CallUpdateCurrentFile ids) W4)\<lparr>ticks := Suc (ticks W4)\<rparr>))"
    using run r by simp
  show "fst (reset_machine_ids ?W) = False" unfolding fin by simp
  show "printed (snd (reset_machine_ids ?W))
     = [MsgStarting, MsgBackingUpCurrent, MsgBackupSaved ''/c/storage.json.bak.20240101_000000'',
        MsgGeneratingNewIds, MsgIdsToReset]
       @ map (\<lambda>kv. MsgIdPreview (fst kv) (snd kv)) (fst (generate_new_ids ?W))
       @ [PromptConfirm, MsgUpdateFailed]"
    unfolding fin by (simp add: say_def record_call_def W4_def b4 ids_def)
  show "calls (snd (reset_machine_ids ?W)) = [CallUpdateCurrentFile (fst (generate_new_ids ?W))]"
    unfolding fin by (simp add: say_def record_call_def W4_def b3 ids_def)
  show "fs (snd (reset_machine_ids ?W)) ''/c/state.vscdb'' = Some (SqliteDb (Some []))"
    unfolding fin by (simp add: say_def record_call_def W4_def b2)
qed

text \<open>
  C2 as stated fails in its second half: the run below returns \<open>False\<close> after the error
  of \<^verbatim>\<open>update_current_file\<close>, and that error is the last line printed; no line marks
  state.vscdb, the machineId file or the system identifiers as skipped.
\<close>

theorem canonical_failure_no_report_counterexample:
  "fs world_canonical_fails ''/c/state.vscdb'' = Some (SqliteDb (Some []))
   \<and> fst (reset_machine_ids world_canonical_fails) = False
   \<and> calls (snd (reset_machine_ids world_canonical_fails))
       = [CallUpdateCurrentFile (fst (generate_new_ids world_canonical_fails))]
   \<and> printed (snd (reset_machine_ids world_canonical_fails))
     = [MsgStarting, MsgBackingUpCurrent, MsgBackupSaved ''/c/storage.json.bak.20240101_000000'',
        MsgGeneratingNewIds, MsgIdsToReset]
       @ map (\<lambda>kv. MsgIdPreview (fst kv) (snd kv)) (fst (generate_new_ids world_canonical_fails))
       @ [PromptConfirm, MsgUpdateFailed]"
  using world_canonical_fails_run by (simp add: world_canonical_fails_def)

text \<open>
  \<^verbatim>\<open>update_current_file\<close> fails because its copy of storage.json cannot be written; and
  the run on a machine without storage.json fails.
\<close>

theorem canonical_failure_stops_run_witness:
  "\<not> fst (update_current_file ids0 world_json_nobackup)
   \<and> reset_apply ids0 world_json_nobackup
       = (False, snd (update_current_file ids0 world_json_nobackup))
   \<and> calls (snd (reset_apply ids0 world_json_nobackup)) = [CallUpdateCurrentFile ids0]
   \<and> last (printed (snd (reset_apply ids0 world_json_nobackup))) = MsgUpdateFailed
   \<and> fs (snd (reset_apply ids0 world_json_nobackup)) ''/c/state.vscdb''
       = fs world_json_nobackup ''/c/state.vscdb''
   \<and> \<not> fst (reset_machine_ids world_sqlite_only)
   \<and> calls (snd (reset_machine_ids world_sqlite_only))
       = [CallUpdateCurrentFile (fst (generate_new_ids world_sqlite_only))]"
proof -
  let ?W = world_json_nobackup
  have u: "update_current_file ids0 ?W
             = (False, say MsgUpdateFailed
                    ((record_call (CallUpdateCurrentFile ids0) ?W)\<lparr>ticks := Suc (ticks ?W)\<rparr>))"
    by (rule update_current_file_copy_fails[where v = "PDict [(''unrelated.key'', PStr ''x''),
                                                 (''telemetry.sqmId'', PStr ''old'')]"])
       (simp_all add: world_json_nobackup_def world_json_old_def world0_def)
  then have h1: "\<not> fst (update_current_file ids0 ?W)" by simp
  have h2: "\<not> fst (reset_machine_ids world_sqlite_only)"
    using world_sqlite_only_run(1) by simp
  have l: "last (printed (snd (update_current_file ids0 ?W))) = MsgUpdateFailed"
    by (simp add: u say_def)
  have p: "''/c/state.vscdb'' \<noteq> db_path ?W"
    "''/c/state.vscdb'' \<noteq> db_path ?W @ ''.restore_bak.'' @ clock ?W (ticks ?W)"
    by (simp_all add: world_json_nobackup_def world_json_old_def world0_def)
  have c: "calls ?W = []" "calls world_sqlite_only = []"
    by (simp_all add: world_json_nobackup_def world_json_old_def world_sqlite_only_def world0_def)
  from canonical_failure_stops_run[of ids0 ?W] h1 p
  have a: "reset_apply ids0 ?W = (False, snd (update_current_file ids0 ?W))"
    "calls (snd (reset_apply ids0 ?W)) = calls ?W @ [CallUpdateCurrentFile ids0]"
    "fs (snd (reset_apply ids0 ?W)) ''/c/state.vscdb'' = fs ?W ''/c/state.vscdb''"
    by blast+
  from canonical_failure_stops_run[of ids0 world_sqlite_only] h2
  have b: "calls (snd (reset_machine_ids world_sqlite_only)) = calls world_sqlite_only
        \<or> calls (snd (reset_machine_ids world_sqlite_only))
            = calls world_sqlite_only @ [CallUpdateCurrentFile (fst (generate_new_ids world_sqlite_only))]"
    by blast
  have b': "calls (snd (reset_machine_ids world_sqlite_only))
       = [CallUpdateCurrentFile (fst (generate_new_ids world_sqlite_only))]"
    using b world_sqlite_only_run(3) by simp
  show ?thesis using h1 a l h2 b' unfolding c by simp
qed

end
